theory Spec2Isabelle
  imports Main "HOL-Library.Word"
begin

unbundle bit_operations_syntax

section \<open>Go values used by loggedio\<close>

text \<open>
  A Go \<open>byte\<close> is an 8-bit word. A Go \<open>string\<close> is a sequence of bytes, written here as
  a HOL \<open>string\<close> (a list of 8-bit characters). The conversions \<open>string(b)\<close> and
  \<open>[]byte(s)\<close> copy the bytes one by one.
\<close>

type_synonym byte = "8 word"

definition string_of_bytes :: "byte list \<Rightarrow> string" where
  "string_of_bytes bs = map (\<lambda>x. char_of (unat x)) bs"

definition bytes_of_string :: "string \<Rightarrow> byte list" where
  "bytes_of_string s = map of_char s"

text \<open>
  A slice \<open>[]byte\<close> is a view on a backing array: \<open>arr\<close> holds the array from the first
  element of the slice up to its capacity, \<open>len\<close> is the length of the slice. The bytes a
  reader of the slice sees are the first \<open>len\<close> bytes of \<open>arr\<close>.
\<close>

record gslice =
  arr :: "byte list"
  len :: nat

definition cap :: "gslice \<Rightarrow> nat" where
  "cap b = length (arr b)"

definition contents :: "gslice \<Rightarrow> byte list" where
  "contents b = take (len b) (arr b)"

definition make_slice :: "byte list \<Rightarrow> gslice" where
  "make_slice bs = \<lparr>arr = bs, len = length bs\<rparr>"

text \<open>
  A non-nil \<open>error\<close> is identified by the text its \<open>Error()\<close> method returns; a result of
  type \<open>error\<close> is an option, \<open>None\<close> for \<open>nil\<close>. A \<open>net.Addr\<close> is the text of the address
  (\<open>None\<close> for a nil address) and a \<open>time.Time\<close> is a number of nanoseconds.
\<close>

type_synonym go_error = string
type_synonym net_Addr = "string option"
type_synonym time_Time = int

text \<open>
  A panic is a value of its own, never an \<open>error\<close> result: a failed type assertion
  \<open>x.(I)\<close> (with the name of the interface), a slice expression out of range, or any
  other panic raised by the code a proxy calls (a nil function value, a failing callback).
\<close>

datatype panic =
    InterfaceConversion string
  | SliceBoundsOutOfRange int nat
  | OtherPanic string

text \<open>
  Code with effects is a function from the state of the world (the proxied object, the
  sinks that reports are written to, whatever the callbacks touch) to either a panic or a
  result with the new state.
\<close>

type_synonym ('a, 'w) go = "'w \<Rightarrow> panic + 'a \<times> 'w"

definition go_return :: "'a \<Rightarrow> ('a, 'w) go" where
  "go_return x = (\<lambda>w. Inr (x, w))"

definition go_panic :: "panic \<Rightarrow> ('a, 'w) go" where
  "go_panic p = (\<lambda>w. Inl p)"

definition go_bind :: "('a, 'w) go \<Rightarrow> ('a \<Rightarrow> ('b, 'w) go) \<Rightarrow> ('b, 'w) go" where
  "go_bind m f = (\<lambda>w. case m w of Inl p \<Rightarrow> Inl p | Inr (x, w') \<Rightarrow> f x w')"

text \<open>The slice expression \<open>b[:n]\<close>: it panics unless \<open>0 \<le> n \<le> cap(b)\<close>.\<close>

definition slice_upto :: "gslice \<Rightarrow> int \<Rightarrow> panic + gslice" where
  "slice_upto b n =
     (if 0 \<le> n \<and> n \<le> int (cap b) then Inr (b\<lparr>len := nat n\<rparr>)
      else Inl (SliceBoundsOutOfRange n (cap b)))"

section \<open>The hex formatter\<close>

definition hexDigits :: string where
  "hexDigits = ''0123456789abcdef''"

text \<open>
  The loop of \<open>toHex\<close>: \<open>i\<close> is the loop counter and \<open>builder\<close> the contents of the
  \<open>strings.Builder\<close>. The test \<open>i < len(b)-1\<close> is on Go's signed \<open>int\<close>.
\<close>

function toHex_loop :: "byte list \<Rightarrow> nat \<Rightarrow> string \<Rightarrow> string" where
  "toHex_loop b i builder =
     (if i < length b then
        (let ch = b ! i;
             builder1 = builder @ [hexDigits ! unat (drop_bit 4 ch)];
             builder2 = builder1 @ [hexDigits ! unat (ch AND 15)];
             builder3 = (if int i < int (length b) - 1 then builder2 @ [CHR '' '']
                         else builder2)
         in toHex_loop b (i + 1) builder3)
      else builder)"
  by pat_completeness auto
termination
  by (relation "measure (\<lambda>(b, i, builder). length b - i)") auto

declare toHex_loop.simps [simp del]

definition toHex :: "byte list \<Rightarrow> string" where
  "toHex b = toHex_loop b 0 []"

text \<open>
  The same text by recursion on the bytes: two digits for each byte, a space before every
  byte but the first.
\<close>

definition hex_pair :: "byte \<Rightarrow> string" where
  "hex_pair ch = [hexDigits ! (unat ch div 16), hexDigits ! (unat ch mod 16)]"

fun hex_join :: "byte list \<Rightarrow> string" where
  "hex_join [] = []"
| "hex_join [x] = hex_pair x"
| "hex_join (x # y # ys) = hex_pair x @ CHR '' '' # hex_join (y # ys)"

section \<open>Proxied objects and interfaces\<close>

text \<open>
  The proxied object is an \<open>interface{}\<close>: any value, with whatever methods its dynamic
  type has. Only the eight methods that the proxy may call matter; each is present
  (\<open>Some\<close>) or absent (\<open>None\<close>). A nil \<open>interface{}\<close> is the object with no method.
  \<open>Read\<close> gets the caller's slice and returns, with its two results, the new contents of
  the backing array, which the callee may have written to.
\<close>

type_synonym 'w io_Reader = "gslice \<Rightarrow> (byte list \<times> int \<times> go_error option, 'w) go"
type_synonym 'w io_Writer = "gslice \<Rightarrow> (int \<times> go_error option, 'w) go"
type_synonym 'w io_Closer = "(go_error option, 'w) go"

record 'w object =
  method_Read :: "'w io_Reader option"
  method_Write :: "'w io_Writer option"
  method_Close :: "'w io_Closer option"
  method_LocalAddr :: "(net_Addr, 'w) go option"
  method_RemoteAddr :: "(net_Addr, 'w) go option"
  method_SetDeadline :: "(time_Time \<Rightarrow> (go_error option, 'w) go) option"
  method_SetReadDeadline :: "(time_Time \<Rightarrow> (go_error option, 'w) go) option"
  method_SetWriteDeadline :: "(time_Time \<Rightarrow> (go_error option, 'w) go) option"

text \<open>A value of type \<open>net.Conn\<close> has all eight methods.\<close>

record 'w net_Conn =
  conn_Read :: "'w io_Reader"
  conn_Write :: "'w io_Writer"
  conn_Close :: "'w io_Closer"
  conn_LocalAddr :: "(net_Addr, 'w) go"
  conn_RemoteAddr :: "(net_Addr, 'w) go"
  conn_SetDeadline :: "time_Time \<Rightarrow> (go_error option, 'w) go"
  conn_SetReadDeadline :: "time_Time \<Rightarrow> (go_error option, 'w) go"
  conn_SetWriteDeadline :: "time_Time \<Rightarrow> (go_error option, 'w) go"

text \<open>
  The type assertions \<open>x.(io.Reader)\<close>, \<open>x.(io.Writer)\<close>, \<open>x.(io.Closer)\<close> and
  \<open>x.(net.Conn)\<close>: each panics unless the object has every method of the interface.
\<close>

definition assert_io_Reader :: "'w object \<Rightarrow> panic + 'w io_Reader" where
  "assert_io_Reader x =
     (case method_Read x of
        None \<Rightarrow> Inl (InterfaceConversion ''io.Reader'')
      | Some f \<Rightarrow> Inr f)"

definition assert_io_Writer :: "'w object \<Rightarrow> panic + 'w io_Writer" where
  "assert_io_Writer x =
     (case method_Write x of
        None \<Rightarrow> Inl (InterfaceConversion ''io.Writer'')
      | Some f \<Rightarrow> Inr f)"

definition assert_io_Closer :: "'w object \<Rightarrow> panic + 'w io_Closer" where
  "assert_io_Closer x =
     (case method_Close x of
        None \<Rightarrow> Inl (InterfaceConversion ''io.Closer'')
      | Some f \<Rightarrow> Inr f)"

definition assert_net_Conn :: "'w object \<Rightarrow> panic + 'w net_Conn" where
  "assert_net_Conn x =
     (case method_Read x of None \<Rightarrow> Inl (InterfaceConversion ''net.Conn'') | Some rd \<Rightarrow>
      case method_Write x of None \<Rightarrow> Inl (InterfaceConversion ''net.Conn'') | Some wr \<Rightarrow>
      case method_Close x of None \<Rightarrow> Inl (InterfaceConversion ''net.Conn'') | Some cl \<Rightarrow>
      case method_LocalAddr x of None \<Rightarrow> Inl (InterfaceConversion ''net.Conn'') | Some la \<Rightarrow>
      case method_RemoteAddr x of None \<Rightarrow> Inl (InterfaceConversion ''net.Conn'') | Some ra \<Rightarrow>
      case method_SetDeadline x of None \<Rightarrow> Inl (InterfaceConversion ''net.Conn'') | Some sd \<Rightarrow>
      case method_SetReadDeadline x of None \<Rightarrow> Inl (InterfaceConversion ''net.Conn'') | Some srd \<Rightarrow>
      case method_SetWriteDeadline x of None \<Rightarrow> Inl (InterfaceConversion ''net.Conn'') | Some swd \<Rightarrow>
        Inr \<lparr>conn_Read = rd, conn_Write = wr, conn_Close = cl, conn_LocalAddr = la,
             conn_RemoteAddr = ra, conn_SetDeadline = sd, conn_SetReadDeadline = srd,
             conn_SetWriteDeadline = swd\<rparr>)"

text \<open>Continue with the value of a type assertion or a slice expression, or panic.\<close>

definition go_try :: "panic + 'a \<Rightarrow> ('a \<Rightarrow> ('b, 'w) go) \<Rightarrow> ('b, 'w) go" where
  "go_try r f = (case r of Inl p \<Rightarrow> go_panic p | Inr x \<Rightarrow> f x)"

section \<open>The proxy\<close>

text \<open>
  The struct \<open>LoggedIOProxy\<close>. A callback is Go code with effects of its own; it may
  panic (a nil function value panics when called).
\<close>

record 'w LoggedIOProxy =
  reportReadEvent :: "gslice \<Rightarrow> (unit, 'w) go"
  reportWriteEvent :: "gslice \<Rightarrow> (unit, 'w) go"
  reportCloseEvent :: "(unit, 'w) go"
  reportErrorEvent :: "string \<Rightarrow> go_error \<Rightarrow> (unit, 'w) go"
  proxiedObject :: "'w object"
  location :: string

definition Generic ::
  "'w object \<Rightarrow> (gslice \<Rightarrow> (unit, 'w) go) \<Rightarrow> (gslice \<Rightarrow> (unit, 'w) go) \<Rightarrow>
   (string \<Rightarrow> go_error \<Rightarrow> (unit, 'w) go) \<Rightarrow> (unit, 'w) go \<Rightarrow> 'w LoggedIOProxy" where
  "Generic proxiedObject' reportReadEvent' reportWriteEvent' reportErrorEvent' reportCloseEvent' =
     \<lparr>reportReadEvent = reportReadEvent',
      reportWriteEvent = reportWriteEvent',
      reportCloseEvent = reportCloseEvent',
      reportErrorEvent = reportErrorEvent',
      proxiedObject = proxiedObject',
      location = []\<rparr>"

subsection \<open>The methods of the proxy in src/unnamed/part_001\<close>

definition Read :: "'w LoggedIOProxy \<Rightarrow> 'w io_Reader" where
  "Read this b =
     go_try (assert_io_Reader (proxiedObject this)) (\<lambda>reader.
     go_bind (reader b) (\<lambda>(arr', n, err).
     go_bind (if n > 0 then go_try (slice_upto (b\<lparr>arr := arr'\<rparr>) n) (reportReadEvent this)
              else go_return ()) (\<lambda>_.
     go_bind (case err of None \<Rightarrow> go_return ()
              | Some e \<Rightarrow> reportErrorEvent this ''Read()'' e) (\<lambda>_.
     go_return (arr', n, err)))))"

definition Write :: "'w LoggedIOProxy \<Rightarrow> 'w io_Writer" where
  "Write this b =
     go_try (assert_io_Writer (proxiedObject this)) (\<lambda>writer.
     go_bind (writer b) (\<lambda>(n, err).
     go_bind (if n > 0 then go_try (slice_upto b n) (reportWriteEvent this)
              else go_return ()) (\<lambda>_.
     go_bind (case err of None \<Rightarrow> go_return ()
              | Some e \<Rightarrow> reportErrorEvent this ''Write()'' e) (\<lambda>_.
     go_return (n, err)))))"

definition Close :: "'w LoggedIOProxy \<Rightarrow> 'w io_Closer" where
  "Close this =
     go_try (assert_io_Closer (proxiedObject this)) (\<lambda>closer.
     go_bind closer (\<lambda>err.
     go_bind (reportCloseEvent this) (\<lambda>_.
     go_bind (case err of None \<Rightarrow> go_return ()
              | Some e \<Rightarrow> reportErrorEvent this ''Close()'' e) (\<lambda>_.
     go_return err))))"

definition LocalAddr :: "'w LoggedIOProxy \<Rightarrow> (net_Addr, 'w) go" where
  "LocalAddr this =
     go_try (assert_net_Conn (proxiedObject this)) (\<lambda>conn. conn_LocalAddr conn)"

definition RemoteAddr :: "'w LoggedIOProxy \<Rightarrow> (net_Addr, 'w) go" where
  "RemoteAddr this =
     go_try (assert_net_Conn (proxiedObject this)) (\<lambda>conn. conn_RemoteAddr conn)"

definition SetDeadline :: "'w LoggedIOProxy \<Rightarrow> time_Time \<Rightarrow> (go_error option, 'w) go" where
  "SetDeadline this t =
     go_try (assert_net_Conn (proxiedObject this)) (\<lambda>conn.
     go_bind (conn_SetDeadline conn t) (\<lambda>err.
     go_bind (case err of None \<Rightarrow> go_return ()
              | Some e \<Rightarrow> reportErrorEvent this ''SetDeadline()'' e) (\<lambda>_.
     go_return err)))"

definition SetReadDeadline :: "'w LoggedIOProxy \<Rightarrow> time_Time \<Rightarrow> (go_error option, 'w) go" where
  "SetReadDeadline this t =
     go_try (assert_net_Conn (proxiedObject this)) (\<lambda>conn.
     go_bind (conn_SetReadDeadline conn t) (\<lambda>err.
     go_bind (case err of None \<Rightarrow> go_return ()
              | Some e \<Rightarrow> reportErrorEvent this ''SetReadDeadline()'' e) (\<lambda>_.
     go_return err)))"

definition SetWriteDeadline :: "'w LoggedIOProxy \<Rightarrow> time_Time \<Rightarrow> (go_error option, 'w) go" where
  "SetWriteDeadline this t =
     go_try (assert_net_Conn (proxiedObject this)) (\<lambda>conn.
     go_bind (conn_SetWriteDeadline conn t) (\<lambda>err.
     go_bind (case err of None \<Rightarrow> go_return ()
              | Some e \<Rightarrow> reportErrorEvent this ''SetWriteDeadline()'' e) (\<lambda>_.
     go_return err)))"

text \<open>
  A \<open>*LoggedIOProxy\<close> has all eight methods, so it can itself be the proxied object of
  another proxy.
\<close>

definition object_of_proxy :: "'w LoggedIOProxy \<Rightarrow> 'w object" where
  "object_of_proxy p =
     \<lparr>method_Read = Some (Read p),
      method_Write = Some (Write p),
      method_Close = Some (Close p),
      method_LocalAddr = Some (LocalAddr p),
      method_RemoteAddr = Some (RemoteAddr p),
      method_SetDeadline = Some (SetDeadline p),
      method_SetReadDeadline = Some (SetReadDeadline p),
      method_SetWriteDeadline = Some (SetWriteDeadline p)\<rparr>"

subsection \<open>The methods of the proxy in src/loggedio.go\<close>

definition loggedio_go_Read :: "'w LoggedIOProxy \<Rightarrow> 'w io_Reader" where
  "loggedio_go_Read this b =
     go_try (assert_io_Reader (proxiedObject this)) (\<lambda>reader.
     go_bind (reader b) (\<lambda>(arr', n, err).
     go_bind (if n > 0 then go_try (slice_upto (b\<lparr>arr := arr'\<rparr>) n) (reportReadEvent this)
              else go_return ()) (\<lambda>_.
     go_bind (case err of None \<Rightarrow> go_return ()
              | Some e \<Rightarrow> reportErrorEvent this ''Read()'' e) (\<lambda>_.
     go_return (arr', n, err)))))"

definition loggedio_go_Write :: "'w LoggedIOProxy \<Rightarrow> 'w io_Writer" where
  "loggedio_go_Write this b =
     go_try (assert_io_Writer (proxiedObject this)) (\<lambda>writer.
     go_bind (writer b) (\<lambda>(n, err).
     go_bind (if n > 0 then go_try (slice_upto b n) (reportWriteEvent this)
              else go_return ()) (\<lambda>_.
     go_bind (case err of None \<Rightarrow> go_return ()
              | Some e \<Rightarrow> reportErrorEvent this ''Write()'' e) (\<lambda>_.
     go_return (n, err)))))"

definition loggedio_go_Close :: "'w LoggedIOProxy \<Rightarrow> 'w io_Closer" where
  "loggedio_go_Close this =
     go_try (assert_io_Closer (proxiedObject this)) (\<lambda>closer.
     go_bind closer (\<lambda>err.
     go_bind (reportCloseEvent this) (\<lambda>_.
     go_bind (case err of None \<Rightarrow> go_return ()
              | Some e \<Rightarrow> reportErrorEvent this ''Close()'' e) (\<lambda>_.
     go_return err))))"

definition loggedio_go_LocalAddr :: "'w LoggedIOProxy \<Rightarrow> (net_Addr, 'w) go" where
  "loggedio_go_LocalAddr this =
     go_try (assert_net_Conn (proxiedObject this)) (\<lambda>conn. conn_LocalAddr conn)"

definition loggedio_go_RemoteAddr :: "'w LoggedIOProxy \<Rightarrow> (net_Addr, 'w) go" where
  "loggedio_go_RemoteAddr this =
     go_try (assert_net_Conn (proxiedObject this)) (\<lambda>conn. conn_RemoteAddr conn)"

definition loggedio_go_SetDeadline ::
  "'w LoggedIOProxy \<Rightarrow> time_Time \<Rightarrow> (go_error option, 'w) go" where
  "loggedio_go_SetDeadline this t =
     go_try (assert_net_Conn (proxiedObject this)) (\<lambda>conn.
     go_bind (conn_SetDeadline conn t) (\<lambda>err.
     go_bind (case err of None \<Rightarrow> go_return ()
              | Some e \<Rightarrow> reportErrorEvent this ''SetDeadline()'' e) (\<lambda>_.
     go_return err)))"

definition loggedio_go_SetReadDeadline ::
  "'w LoggedIOProxy \<Rightarrow> time_Time \<Rightarrow> (go_error option, 'w) go" where
  "loggedio_go_SetReadDeadline this t =
     go_try (assert_net_Conn (proxiedObject this)) (\<lambda>conn.
     go_bind (conn_SetReadDeadline conn t) (\<lambda>err.
     go_bind (case err of None \<Rightarrow> go_return ()
              | Some e \<Rightarrow> reportErrorEvent this ''SetReadDeadline()'' e) (\<lambda>_.
     go_return err)))"

definition loggedio_go_SetWriteDeadline ::
  "'w LoggedIOProxy \<Rightarrow> time_Time \<Rightarrow> (go_error option, 'w) go" where
  "loggedio_go_SetWriteDeadline this t =
     go_try (assert_net_Conn (proxiedObject this)) (\<lambda>conn.
     go_bind (conn_SetWriteDeadline conn t) (\<lambda>err.
     go_bind (case err of None \<Rightarrow> go_return ()
              | Some e \<Rightarrow> reportErrorEvent this ''SetWriteDeadline()'' e) (\<lambda>_.
     go_return err)))"

section \<open>The constructors that format reports (src/unnamed/part_001)\<close>

text \<open>
  The Go library and the operating system are not code of this repository; what the
  constructors use of them is a parameter: \<open>fmt.Sprintf\<close> (the operands are strings and
  errors), the output of the standard logger, the two standard streams as writers, and
  \<open>os.Create\<close>, which returns a writer and an error.
\<close>

datatype fmt_arg = StringArg string | ErrorArg go_error

record 'w runtime =
  fmt_Sprintf :: "string \<Rightarrow> fmt_arg list \<Rightarrow> string"
  log_Output :: "string \<Rightarrow> (unit, 'w) go"
  os_Stdout :: "'w io_Writer"
  os_Stderr :: "'w io_Writer"
  os_Create :: "string \<Rightarrow> ('w io_Writer \<times> go_error option, 'w) go"

text \<open>
  \<open>fmt.Fprintf\<close> formats and writes the text to the writer in one call of \<open>Write\<close>;
  \<open>log.Printf\<close> formats and hands the text to the standard logger;
  \<open>ioutil.Discard\<close> accepts everything and does nothing.
\<close>

definition fmt_Fprintf ::
  "'w runtime \<Rightarrow> 'w io_Writer \<Rightarrow> string \<Rightarrow> fmt_arg list \<Rightarrow> (int \<times> go_error option, 'w) go" where
  "fmt_Fprintf rt writer format args =
     writer (make_slice (bytes_of_string (fmt_Sprintf rt format args)))"

definition log_Printf :: "'w runtime \<Rightarrow> string \<Rightarrow> fmt_arg list \<Rightarrow> (unit, 'w) go" where
  "log_Printf rt format args = log_Output rt (fmt_Sprintf rt format args)"

definition ioutil_Discard :: "'w io_Writer" where
  "ioutil_Discard b = go_return (int (len b), None)"

text \<open>A call whose results are dropped.\<close>

definition ignore_result :: "('a, 'w) go \<Rightarrow> (unit, 'w) go" where
  "ignore_result m = go_bind m (\<lambda>_. go_return ())"

definition byteFunc ::
  "string \<Rightarrow> (gslice \<Rightarrow> (unit, 'w) go) \<Rightarrow> (gslice \<Rightarrow> (unit, 'w) go)" where
  "byteFunc format function = (if format = [] then (\<lambda>_. go_return ()) else function)"

definition errFunc ::
  "string \<Rightarrow> (string \<Rightarrow> go_error \<Rightarrow> (unit, 'w) go) \<Rightarrow> (string \<Rightarrow> go_error \<Rightarrow> (unit, 'w) go)" where
  "errFunc format function = (if format = [] then (\<lambda>_ _. go_return ()) else function)"

definition closeFunc :: "string \<Rightarrow> (unit, 'w) go \<Rightarrow> (unit, 'w) go" where
  "closeFunc msg function = (if msg = [] then go_return () else function)"

definition StringToLog ::
  "'w runtime \<Rightarrow> 'w object \<Rightarrow> string \<Rightarrow> string \<Rightarrow> string \<Rightarrow> string \<Rightarrow> 'w LoggedIOProxy" where
  "StringToLog rt proxiedObject' readFmt writeFmt errorFmt closeMsg =
     Generic proxiedObject'
       (byteFunc readFmt
          (\<lambda>b. log_Printf rt readFmt [StringArg (string_of_bytes (contents b))]))
       (byteFunc writeFmt
          (\<lambda>b. log_Printf rt writeFmt [StringArg (string_of_bytes (contents b))]))
       (errFunc errorFmt
          (\<lambda>location' err. log_Printf rt errorFmt [StringArg location', ErrorArg err]))
       (closeFunc closeMsg (log_Printf rt ''%v'' [StringArg closeMsg]))"

definition HexToLog ::
  "'w runtime \<Rightarrow> 'w object \<Rightarrow> string \<Rightarrow> string \<Rightarrow> string \<Rightarrow> string \<Rightarrow> 'w LoggedIOProxy" where
  "HexToLog rt proxiedObject' readFmt writeFmt errorFmt closeMsg =
     Generic proxiedObject'
       (byteFunc readFmt
          (\<lambda>b. log_Printf rt readFmt [StringArg (toHex (contents b))]))
       (byteFunc readFmt
          (\<lambda>b. log_Printf rt writeFmt [StringArg (toHex (contents b))]))
       (errFunc errorFmt
          (\<lambda>location' err. log_Printf rt errorFmt [StringArg location', ErrorArg err]))
       (closeFunc closeMsg (log_Printf rt ''%v'' [StringArg closeMsg]))"

definition StringToWriter ::
  "'w runtime \<Rightarrow> 'w object \<Rightarrow> 'w io_Writer \<Rightarrow> string \<Rightarrow> string \<Rightarrow> string \<Rightarrow> string \<Rightarrow>
   'w LoggedIOProxy" where
  "StringToWriter rt proxiedObject' writer readFmt writeFmt errorFmt closeMsg =
     Generic proxiedObject'
       (byteFunc readFmt
          (\<lambda>b. ignore_result
                 (fmt_Fprintf rt writer readFmt [StringArg (string_of_bytes (contents b))])))
       (byteFunc readFmt
          (\<lambda>b. ignore_result
                 (fmt_Fprintf rt writer writeFmt [StringArg (string_of_bytes (contents b))])))
       (errFunc errorFmt
          (\<lambda>location' err. ignore_result
                 (fmt_Fprintf rt writer errorFmt [StringArg location', ErrorArg err])))
       (closeFunc closeMsg
          (ignore_result (writer (make_slice (bytes_of_string closeMsg)))))"

definition HexToWriter ::
  "'w runtime \<Rightarrow> 'w object \<Rightarrow> 'w io_Writer \<Rightarrow> string \<Rightarrow> string \<Rightarrow> string \<Rightarrow> string \<Rightarrow>
   'w LoggedIOProxy" where
  "HexToWriter rt proxiedObject' writer readFmt writeFmt errorFmt closeMsg =
     Generic proxiedObject'
       (byteFunc readFmt
          (\<lambda>b. ignore_result
                 (fmt_Fprintf rt writer readFmt [StringArg (toHex (contents b))])))
       (byteFunc readFmt
          (\<lambda>b. ignore_result
                 (fmt_Fprintf rt writer writeFmt [StringArg (toHex (contents b))])))
       (errFunc errorFmt
          (\<lambda>location' err. ignore_result
                 (fmt_Fprintf rt writer errorFmt [StringArg location', ErrorArg err])))
       (closeFunc closeMsg
          (ignore_result (writer (make_slice (bytes_of_string closeMsg)))))"

definition DumpToWriters ::
  "'w runtime \<Rightarrow> 'w object \<Rightarrow> 'w io_Writer \<Rightarrow> 'w io_Writer \<Rightarrow> 'w io_Writer \<Rightarrow>
   string \<Rightarrow> string \<Rightarrow> 'w LoggedIOProxy" where
  "DumpToWriters rt proxiedObject' readWriter writeWriter notifyWriter errorFmt closeMsg =
     (let errorFunc = errFunc errorFmt
            (\<lambda>location' err. ignore_result
                   (fmt_Fprintf rt notifyWriter errorFmt [StringArg location', ErrorArg err]))
      in Generic proxiedObject'
           (\<lambda>b. go_bind (readWriter b) (\<lambda>(_, err).
                   case err of None \<Rightarrow> go_return ()
                   | Some e \<Rightarrow> errorFunc ''LoggedIO readWriter'' e))
           (\<lambda>b. go_bind (writeWriter b) (\<lambda>(_, err).
                   case err of None \<Rightarrow> go_return ()
                   | Some e \<Rightarrow> errorFunc ''LoggedIO writeWriter'' e))
           (errFunc errorFmt
              (\<lambda>location' err. ignore_result
                     (fmt_Fprintf rt notifyWriter errorFmt [StringArg location', ErrorArg err])))
           (closeFunc closeMsg
              (ignore_result (notifyWriter (make_slice (bytes_of_string closeMsg))))))"

definition writerForFile :: "'w runtime \<Rightarrow> string \<Rightarrow> ('w io_Writer, 'w) go" where
  "writerForFile rt filename =
     (if filename = ''stdout'' then go_return (os_Stdout rt)
      else if filename = ''stderr'' then go_return (os_Stderr rt)
      else if filename = ''null'' then go_return ioutil_Discard
      else go_bind (os_Create rt filename) (\<lambda>(writer, err).
             case err of
               Some e \<Rightarrow>
                 go_bind (log_Printf rt ''LoggedIO: Error creating %v: %v''
                            [StringArg filename, ErrorArg e]) (\<lambda>_.
                 go_return ioutil_Discard)
             | None \<Rightarrow> go_return writer))"

definition DumpToFiles ::
  "'w runtime \<Rightarrow> 'w object \<Rightarrow> string \<Rightarrow> string \<Rightarrow> string \<Rightarrow> string \<Rightarrow> string \<Rightarrow>
   ('w LoggedIOProxy, 'w) go" where
  "DumpToFiles rt proxiedObject' readFilename writeFilename notifyFilename errorFmt closeMsg =
     go_bind (writerForFile rt readFilename) (\<lambda>readWriter.
     go_bind (writerForFile rt writeFilename) (\<lambda>writeWriter.
     go_bind (writerForFile rt notifyFilename) (\<lambda>notifyWriter.
     go_return (DumpToWriters rt proxiedObject' readWriter writeWriter notifyWriter
                  errorFmt closeMsg))))"

section \<open>The test doubles (src/unnamed/part_000)\<close>

text \<open>
  The objects that the tests of the repository proxy, and the sinks they report to. The
  state of the world in a test is the \<open>MockIO\<close> struct, the contents of the
  \<open>bytes.Buffer\<close> that receives the reports, the lines given to the standard logger and
  the bytes written to the two standard streams.
\<close>

record MockIO =
  WriteContents :: "byte list"
  CloseCallCount :: int
  LocalAddrCallCount :: int
  RemoteAddrCallCount :: int
  SetDeadlineCallCount :: int
  SetReadDeadlineCallCount :: int
  SetWriteDeadlineCallCount :: int
  FailAfterWriteByteCount :: int
  FailAfterReadByteCount :: int
  FailNextOperations :: bool

record test_state =
  mock :: MockIO
  buffer :: "byte list"
  std_log :: "string list"
  stdout :: "byte list"
  stderr :: "byte list"

definition generateBytes :: "int \<Rightarrow> byte list" where
  "generateBytes length' = map (\<lambda>i. of_nat (i mod 25 + 97)) [0 ..< nat length']"

definition generateError :: go_error where
  "generateError = ''ERROR!''"

text \<open>The builtin \<open>copy(dst, src)\<close> on the backing array of \<open>dst\<close>.\<close>

definition copy_into :: "gslice \<Rightarrow> byte list \<Rightarrow> byte list" where
  "copy_into dst src =
     (let k = min (len dst) (length src) in take k src @ drop k (arr dst))"

definition MockIO_Read :: "test_state io_Reader" where
  "MockIO_Read b w =
     (let this = mock w in
      if FailNextOperations this then Inr ((arr b, 0, Some generateError), w)
      else
        let n = int (len b);
            n = (if n \<ge> FailAfterReadByteCount this \<and> FailAfterReadByteCount this > 0
                 then FailAfterReadByteCount this else n);
            arr' = copy_into b (generateBytes n);
            err = (if n \<ge> FailAfterReadByteCount this \<and> FailAfterReadByteCount this > 0
                   then Some generateError else None)
        in Inr ((arr', n, err), w))"

definition MockIO_Write :: "test_state io_Writer" where
  "MockIO_Write b w =
     (let this = mock w in
      if FailNextOperations this then Inr ((0, Some generateError), w)
      else
        let n = int (len b);
            n = (if n \<ge> FailAfterWriteByteCount this \<and> FailAfterWriteByteCount this > 0
                 then FailAfterWriteByteCount this else n);
            this' = this\<lparr>WriteContents := WriteContents this @ take (nat n) (arr b)\<rparr>;
            err = (if n \<ge> FailAfterWriteByteCount this \<and> FailAfterWriteByteCount this > 0
                   then Some generateError else None)
        in Inr ((n, err), w\<lparr>mock := this'\<rparr>))"

definition MockIO_Close :: "test_state io_Closer" where
  "MockIO_Close w =
     (let this = (mock w)\<lparr>CloseCallCount := CloseCallCount (mock w) + 1\<rparr> in
      Inr ((if FailNextOperations this then Some generateError else None), w\<lparr>mock := this\<rparr>))"

definition MockIO_LocalAddr :: "(net_Addr, test_state) go" where
  "MockIO_LocalAddr w =
     Inr (None, w\<lparr>mock := (mock w)\<lparr>LocalAddrCallCount := LocalAddrCallCount (mock w) + 1\<rparr>\<rparr>)"

definition MockIO_RemoteAddr :: "(net_Addr, test_state) go" where
  "MockIO_RemoteAddr w =
     Inr (None, w\<lparr>mock := (mock w)\<lparr>RemoteAddrCallCount := RemoteAddrCallCount (mock w) + 1\<rparr>\<rparr>)"

definition MockIO_SetDeadline :: "time_Time \<Rightarrow> (go_error option, test_state) go" where
  "MockIO_SetDeadline t w =
     (let this = (mock w)\<lparr>SetDeadlineCallCount := SetDeadlineCallCount (mock w) + 1\<rparr> in
      Inr ((if FailNextOperations this then Some generateError else None), w\<lparr>mock := this\<rparr>))"

definition MockIO_SetReadDeadline :: "time_Time \<Rightarrow> (go_error option, test_state) go" where
  "MockIO_SetReadDeadline t w =
     (let this = (mock w)\<lparr>SetReadDeadlineCallCount := SetReadDeadlineCallCount (mock w) + 1\<rparr> in
      Inr ((if FailNextOperations this then Some generateError else None), w\<lparr>mock := this\<rparr>))"

definition MockIO_SetWriteDeadline :: "time_Time \<Rightarrow> (go_error option, test_state) go" where
  "MockIO_SetWriteDeadline t w =
     (let this = (mock w)\<lparr>SetWriteDeadlineCallCount := SetWriteDeadlineCallCount (mock w) + 1\<rparr> in
      Inr ((if FailNextOperations this then Some generateError else None), w\<lparr>mock := this\<rparr>))"

text \<open>
  The four objects of the tests: \<open>*MockIO\<close> has all eight methods; \<open>*MockReader\<close>,
  \<open>*MockWriter\<close> and \<open>*MockCloser\<close> have one method each, which calls the
  \<open>MockIO\<close> behind them.
\<close>

definition MockIO_object :: "test_state object" where
  "MockIO_object =
     \<lparr>method_Read = Some MockIO_Read,
      method_Write = Some MockIO_Write,
      method_Close = Some MockIO_Close,
      method_LocalAddr = Some MockIO_LocalAddr,
      method_RemoteAddr = Some MockIO_RemoteAddr,
      method_SetDeadline = Some MockIO_SetDeadline,
      method_SetReadDeadline = Some MockIO_SetReadDeadline,
      method_SetWriteDeadline = Some MockIO_SetWriteDeadline\<rparr>"

definition no_methods :: "'w object" where
  "no_methods =
     \<lparr>method_Read = None, method_Write = None, method_Close = None,
      method_LocalAddr = None, method_RemoteAddr = None, method_SetDeadline = None,
      method_SetReadDeadline = None, method_SetWriteDeadline = None\<rparr>"

definition MockReader_object :: "test_state object" where
  "MockReader_object = no_methods\<lparr>method_Read := Some MockIO_Read\<rparr>"

definition MockWriter_object :: "test_state object" where
  "MockWriter_object = no_methods\<lparr>method_Write := Some MockIO_Write\<rparr>"

definition MockCloser_object :: "test_state object" where
  "MockCloser_object = no_methods\<lparr>method_Close := Some MockIO_Close\<rparr>"

text \<open>The sinks: \<open>NullWriter\<close> of the tests, a \<open>bytes.Buffer\<close>, the standard streams.\<close>

definition NullWriter_Write :: "'w io_Writer" where
  "NullWriter_Write b = go_return (0, None)"

definition bytes_Buffer_Write :: "test_state io_Writer" where
  "bytes_Buffer_Write b w = Inr ((int (len b), None), w\<lparr>buffer := buffer w @ contents b\<rparr>)"

definition Stdout_Write :: "test_state io_Writer" where
  "Stdout_Write b w = Inr ((int (len b), None), w\<lparr>stdout := stdout w @ contents b\<rparr>)"

definition Stderr_Write :: "test_state io_Writer" where
  "Stderr_Write b w = Inr ((int (len b), None), w\<lparr>stderr := stderr w @ contents b\<rparr>)"

text \<open>
  A stand-in for \<open>fmt.Sprintf\<close> in the examples: it puts the text of the next operand in
  the place of each \<open>%v\<close> and copies every other character. The examples give it as many
  operands as the format has verbs.
\<close>

fun arg_text :: "fmt_arg \<Rightarrow> string" where
  "arg_text (StringArg s) = s"
| "arg_text (ErrorArg e) = e"

fun simple_Sprintf :: "string \<Rightarrow> fmt_arg list \<Rightarrow> string" where
  "simple_Sprintf [] args = []"
| "simple_Sprintf [c] args = [c]"
| "simple_Sprintf (c # d # fmt) args =
     (if c = CHR ''%'' \<and> d = CHR ''v'' then
        (case args of
           [] \<Rightarrow> ''%!v(MISSING)'' @ simple_Sprintf fmt []
         | a # as \<Rightarrow> arg_text a @ simple_Sprintf fmt as)
      else c # simple_Sprintf (d # fmt) args)"

definition test_runtime :: "test_state runtime" where
  "test_runtime =
     \<lparr>fmt_Sprintf = simple_Sprintf,
      log_Output = (\<lambda>s w. Inr ((), w\<lparr>std_log := std_log w @ [s]\<rparr>)),
      os_Stdout = Stdout_Write,
      os_Stderr = Stderr_Write,
      os_Create = (\<lambda>filename. go_return (ioutil_Discard, Some ''read-only file system''))\<rparr>"

definition new_MockIO :: MockIO where
  "new_MockIO =
     \<lparr>WriteContents = [], CloseCallCount = 0, LocalAddrCallCount = 0,
      RemoteAddrCallCount = 0, SetDeadlineCallCount = 0, SetReadDeadlineCallCount = 0,
      SetWriteDeadlineCallCount = 0, FailAfterWriteByteCount = 0,
      FailAfterReadByteCount = 0, FailNextOperations = False\<rparr>"

definition test_start :: "MockIO \<Rightarrow> test_state" where
  "test_start m = \<lparr>mock = m, buffer = [], std_log = [], stdout = [], stderr = []\<rparr>"

section \<open>Properties of the hex formatter\<close>

lemma unat_drop_bit_4: "unat (drop_bit 4 (ch :: byte)) = unat ch div 16"
  by (simp add: drop_bit_eq_div unat_div)

lemma unat_and_15: "unat ((ch :: byte) AND 15) = unat ch mod 16"
proof -
  have "ch AND 15 = take_bit 4 ch"
    by (simp add: take_bit_eq_mask mask_eq_exp_minus_1)
  then show ?thesis
    by (simp add: take_bit_eq_mod unat_mod)
qed

lemma toHex_loop_hex_join:
  "i \<le> length b \<Longrightarrow> toHex_loop b i builder = builder @ hex_join (drop i b)"
proof (induction b i builder rule: toHex_loop.induct)
  case (1 b i builder)
  show ?case
  proof (cases "i < length b")
    case False
    with "1.prems" show ?thesis
      by (simp add: toHex_loop.simps)
  next
    case True
    define builder3 where "builder3 =
      (if int i < int (length b) - 1 then builder @ hex_pair (b ! i) @ [CHR '' '']
       else builder @ hex_pair (b ! i))"
    have step: "toHex_loop b i builder = toHex_loop b (i + 1) builder3"
      using True unfolding builder3_def
      by (subst toHex_loop.simps)
         (simp add: Let_def hex_pair_def unat_drop_bit_4 unat_and_15)
    have "toHex_loop b (i + 1) builder3 = builder3 @ hex_join (drop (i + 1) b)"
      using True "1.IH" [OF True refl refl refl refl] unfolding builder3_def
      by (simp add: hex_pair_def unat_drop_bit_4 unat_and_15 split: if_splits)
    moreover have "builder3 @ hex_join (drop (i + 1) b) = builder @ hex_join (drop i b)"
    proof (cases "Suc i < length b")
      case True
      then have "drop i b = b ! i # b ! Suc i # drop (Suc (Suc i)) b"
        by (metis Cons_nth_drop_Suc Suc_lessD)
      moreover from True have "drop (i + 1) b = b ! Suc i # drop (Suc (Suc i)) b"
        by (simp add: Cons_nth_drop_Suc)
      ultimately show ?thesis
        using True by (simp add: builder3_def)
    next
      case False
      with \<open>i < length b\<close> have "drop i b = [b ! i]" "drop (i + 1) b = []"
        by (simp_all add: Cons_nth_drop_Suc [symmetric])
      with False show ?thesis
        by (simp add: builder3_def)
    qed
    ultimately show ?thesis using step by simp
  qed
qed

lemma toHex_hex_join: "toHex b = hex_join b"
  by (simp add: toHex_def toHex_loop_hex_join)

lemma length_hex_join: "length (hex_join bs) = 3 * length bs - 1"
  by (induction bs rule: hex_join.induct) (simp_all add: hex_pair_def)

lemma hex_join_nth:
  "i < length bs \<Longrightarrow>
     hex_join bs ! (3 * i) = hexDigits ! (unat (bs ! i) div 16) \<and>
     hex_join bs ! (3 * i + 1) = hexDigits ! (unat (bs ! i) mod 16) \<and>
     (i + 1 < length bs \<longrightarrow> hex_join bs ! (3 * i + 2) = CHR '' '')"
proof (induction bs arbitrary: i rule: hex_join.induct)
  case 1
  then show ?case by simp
next
  case (2 x)
  then show ?case by (simp add: hex_pair_def)
next
  case (3 x y ys)
  show ?case
  proof (cases i)
    case 0
    then show ?thesis by (simp add: hex_pair_def)
  next
    case (Suc j)
    with "3.prems" have j: "j < length (y # ys)" by simp
    have sh: "3 * i = Suc (Suc (Suc (3 * j)))" using Suc by simp
    from "3.IH" [OF j] show ?thesis
      using Suc by (simp add: hex_pair_def sh)
  qed
qed

text \<open>
  Claim C8. The hex formatter turns the bytes 0x01, 0x02, 0xAE, 0xF1 into the text
  \<open>01 02 ae f1\<close> and the empty sequence into the empty text. For every byte sequence the
  result has three characters for each byte but the last, which has two: the byte at
  index \<open>i\<close> gives, at positions \<open>3 * i\<close> and \<open>3 * i + 1\<close>, the lowercase hex digits of its
  high and low half, and a single space follows unless the byte is the last one.
\<close>

theorem toHex_format:
  "toHex [0x01, 0x02, 0xAE, 0xF1] = ''01 02 ae f1''
   \<and> toHex [] = []
   \<and> length (toHex bs) = 3 * length bs - 1
   \<and> (\<forall>i < length bs.
         toHex bs ! (3 * i) = ''0123456789abcdef'' ! (unat (bs ! i) div 16)
       \<and> toHex bs ! (3 * i + 1) = ''0123456789abcdef'' ! (unat (bs ! i) mod 16)
       \<and> (i + 1 < length bs \<longrightarrow> toHex bs ! (3 * i + 2) = CHR '' ''))"
proof -
  have "toHex [0x01, 0x02, 0xAE, 0xF1] = ''01 02 ae f1''"
    by (simp add: toHex_def toHex_loop.simps hexDigits_def)
  moreover have "toHex [] = []"
    by (simp add: toHex_def toHex_loop.simps)
  moreover have "length (toHex bs) = 3 * length bs - 1"
    by (simp add: toHex_hex_join length_hex_join)
  moreover have "\<forall>i < length bs.
         toHex bs ! (3 * i) = ''0123456789abcdef'' ! (unat (bs ! i) div 16)
       \<and> toHex bs ! (3 * i + 1) = ''0123456789abcdef'' ! (unat (bs ! i) mod 16)
       \<and> (i + 1 < length bs \<longrightarrow> toHex bs ! (3 * i + 2) = CHR '' '')"
    using hex_join_nth [of _ bs] by (simp add: toHex_hex_join hexDigits_def)
  ultimately show ?thesis by blast
qed

theorem toHex_format_witness:
  "(1::nat) < length [0x61, 0x0A, 0xFF :: byte]
   \<and> length (toHex [0x61, 0x0A, 0xFF]) = 8
   \<and> toHex [0x61, 0x0A, 0xFF] ! 3 = CHR ''0''
   \<and> toHex [0x61, 0x0A, 0xFF] ! 4 = CHR ''a''
   \<and> toHex [0x61, 0x0A, 0xFF] ! 5 = CHR '' ''"
proof -
  let ?bs = "[0x61, 0x0A, 0xFF :: byte]"
  have h: "(1::nat) < length ?bs" by simp
  have len: "length (toHex ?bs) = 3 * length ?bs - 1"
    using toHex_format [of ?bs] by blast
  have "\<forall>i < length ?bs.
         toHex ?bs ! (3 * i) = ''0123456789abcdef'' ! (unat (?bs ! i) div 16)
       \<and> toHex ?bs ! (3 * i + 1) = ''0123456789abcdef'' ! (unat (?bs ! i) mod 16)
       \<and> (i + 1 < length ?bs \<longrightarrow> toHex ?bs ! (3 * i + 2) = CHR '' '')"
    using toHex_format [of ?bs] by blast
  from this [rule_format, OF h] have
    "toHex ?bs ! 3 = CHR ''0'' \<and> toHex ?bs ! 4 = CHR ''a'' \<and> toHex ?bs ! 5 = CHR '' ''"
    by simp
  with h len show ?thesis by simp
qed

section \<open>The proxy forwards, then reports\<close>

lemmas go_simps = go_bind_def go_return_def go_panic_def go_try_def

lemma gslice_update_all: "(b :: gslice)\<lparr>arr := a, len := l\<rparr> = \<lparr>arr = a, len = l\<rparr>"
  by (cases b) simp

lemma gslice_update_len: "(b :: gslice)\<lparr>len := l\<rparr> = \<lparr>arr = arr b, len = l\<rparr>"
  by (cases b) simp

lemma Write_accepted:
  assumes "method_Write (proxiedObject this) = Some writer"
    and "writer b w = Inr ((n, err), w1)"
    and "0 < n" and "n \<le> int (cap b)"
  shows "Write this b w =
           go_bind (reportWriteEvent this \<lparr>arr = arr b, len = nat n\<rparr>) (\<lambda>_.
           go_bind (case err of None \<Rightarrow> go_return ()
                    | Some e \<Rightarrow> reportErrorEvent this ''Write()'' e) (\<lambda>_.
           go_return (n, err))) w1"
  using assms
  by (simp add: Write_def assert_io_Writer_def slice_upto_def go_simps gslice_update_len)

text \<open>
  Claim C1. When the proxied object has a \<open>Read\<close> method, \<open>Read\<close> of the proxy calls it
  with the caller's slice. If the count \<open>n\<close> that comes back is positive, the read
  callback is called with the slice \<open>b[:n]\<close> of the buffer as the object left it; for a
  count within the buffer that slice holds exactly the first \<open>n\<close> bytes, so it is never
  empty and never longer than \<open>n\<close>. After that, if an error came back, the error callback
  is called with the tag \<open>Read()\<close> and the error. The count and the error of the object
  are returned as they are.
\<close>

theorem Read_forwards_then_reports:
  assumes "method_Read (proxiedObject this) = Some reader"
    and "reader b w = Inr ((arr', n, err), w1)"
  shows "Read this b w =
           go_bind (if 0 < n then go_try (slice_upto (b\<lparr>arr := arr'\<rparr>) n) (reportReadEvent this)
                    else go_return ()) (\<lambda>_.
           go_bind (case err of None \<Rightarrow> go_return ()
                    | Some e \<Rightarrow> reportErrorEvent this ''Read()'' e) (\<lambda>_.
           go_return (arr', n, err))) w1
         \<and> (0 < n \<and> n \<le> int (length arr') \<longrightarrow>
               slice_upto (b\<lparr>arr := arr'\<rparr>) n = Inr \<lparr>arr = arr', len = nat n\<rparr>
             \<and> contents \<lparr>arr = arr', len = nat n\<rparr> = take (nat n) arr'
             \<and> length (contents \<lparr>arr = arr', len = nat n\<rparr>) = nat n
             \<and> 0 < length (contents \<lparr>arr = arr', len = nat n\<rparr>))"
proof -
  have "Read this b w =
           go_bind (if 0 < n then go_try (slice_upto (b\<lparr>arr := arr'\<rparr>) n) (reportReadEvent this)
                    else go_return ()) (\<lambda>_.
           go_bind (case err of None \<Rightarrow> go_return ()
                    | Some e \<Rightarrow> reportErrorEvent this ''Read()'' e) (\<lambda>_.
           go_return (arr', n, err))) w1"
    using assms by (simp add: Read_def assert_io_Reader_def go_simps)
  moreover have "slice_upto (b\<lparr>arr := arr'\<rparr>) n = Inr \<lparr>arr = arr', len = nat n\<rparr>
             \<and> contents \<lparr>arr = arr', len = nat n\<rparr> = take (nat n) arr'
             \<and> length (contents \<lparr>arr = arr', len = nat n\<rparr>) = nat n
             \<and> 0 < length (contents \<lparr>arr = arr', len = nat n\<rparr>)"
    if "0 < n" "n \<le> int (length arr')"
    using that by (simp add: slice_upto_def cap_def contents_def gslice_update_all)
  ultimately show ?thesis by blast
qed

theorem Read_forwards_then_reports_witness:
  "method_Read (proxiedObject
      (StringToWriter test_runtime MockIO_object bytes_Buffer_Write
         ''R [%v]'' ''W [%v]'' ''E [%v: %v]'' ''C'')) = Some MockIO_Read
   \<and> MockIO_Read (make_slice [0, 0, 0]) (test_start (new_MockIO\<lparr>FailAfterReadByteCount := 2\<rparr>))
       = Inr (([97, 98, 0], 2, Some ''ERROR!''),
              test_start (new_MockIO\<lparr>FailAfterReadByteCount := 2\<rparr>))
   \<and> (0 :: int) < 2 \<and> (2 :: int) \<le> int (length [97, 98, 0 :: byte])
   \<and> Read (StringToWriter test_runtime MockIO_object bytes_Buffer_Write
              ''R [%v]'' ''W [%v]'' ''E [%v: %v]'' ''C'')
        (make_slice [0, 0, 0]) (test_start (new_MockIO\<lparr>FailAfterReadByteCount := 2\<rparr>))
       = Inr (([97, 98, 0], 2, Some ''ERROR!''),
              (test_start (new_MockIO\<lparr>FailAfterReadByteCount := 2\<rparr>))
                \<lparr>buffer := bytes_of_string ''R [ab]E [Read(): ERROR!]''\<rparr>)
   \<and> slice_upto ((make_slice [0, 0, 0])\<lparr>arr := [97, 98, 0]\<rparr>) 2
       = Inr \<lparr>arr = [97, 98, 0], len = nat 2\<rparr>
   \<and> contents \<lparr>arr = [97, 98, 0], len = nat 2\<rparr> = [97, 98]"
proof -
  let ?p = "StringToWriter test_runtime MockIO_object bytes_Buffer_Write
              ''R [%v]'' ''W [%v]'' ''E [%v: %v]'' ''C''"
  let ?b = "make_slice [0, 0, 0]"
  let ?w = "test_start (new_MockIO\<lparr>FailAfterReadByteCount := 2\<rparr>)"
  have h1: "method_Read (proxiedObject ?p) = Some MockIO_Read"
    by (simp add: StringToWriter_def Generic_def MockIO_object_def)
  have h2: "MockIO_Read ?b ?w = Inr (([97, 98, 0], 2, Some ''ERROR!''), ?w)"
    by code_simp
  have h3: "(0 :: int) < 2 \<and> (2 :: int) \<le> int (length [97, 98, 0 :: byte])" by simp
  have r: "go_bind (if 0 < (2::int)
                    then go_try (slice_upto (?b\<lparr>arr := [97, 98, 0]\<rparr>) 2) (reportReadEvent ?p)
                    else go_return ()) (\<lambda>_.
           go_bind (case Some ''ERROR!'' of None \<Rightarrow> go_return ()
                    | Some e \<Rightarrow> reportErrorEvent ?p ''Read()'' e) (\<lambda>_.
           go_return ([97, 98, 0 :: byte], 2 :: int, Some ''ERROR!''))) ?w
        = Inr (([97, 98, 0], 2, Some ''ERROR!''),
              ?w\<lparr>buffer := bytes_of_string ''R [ab]E [Read(): ERROR!]''\<rparr>)"
    by code_simp
  from Read_forwards_then_reports [OF h1 h2] r h1 h2 h3 show ?thesis
    by simp
qed

lemma Read_count_beyond_capacity:
  assumes "method_Read (proxiedObject this) = Some reader"
    and "reader b w = Inr ((arr', n, err), w1)"
    and "int (length arr') < n"
  shows "Read this b w = Inl (SliceBoundsOutOfRange n (length arr'))"
  using assms
  by (simp add: Read_def assert_io_Reader_def slice_upto_def cap_def go_simps)

text \<open>
  Claim C2. When the proxied object has a \<open>Write\<close> method, \<open>Write\<close> of the proxy calls
  it with the caller's data. If the count \<open>n\<close> that comes back is positive, the write
  callback is called with the slice \<open>data[:n]\<close>; for a count within the data that slice
  is exactly the prefix of \<open>n\<close> bytes that was accepted, shorter than the data on a
  partial write. After that, if an error came back, the error callback is called with the
  tag \<open>Write()\<close> and the error. The count and the error of the object are returned as
  they are.
\<close>

theorem Write_forwards_then_reports:
  assumes "method_Write (proxiedObject this) = Some writer"
    and "writer b w = Inr ((n, err), w1)"
  shows "Write this b w =
           go_bind (if 0 < n then go_try (slice_upto b n) (reportWriteEvent this)
                    else go_return ()) (\<lambda>_.
           go_bind (case err of None \<Rightarrow> go_return ()
                    | Some e \<Rightarrow> reportErrorEvent this ''Write()'' e) (\<lambda>_.
           go_return (n, err))) w1
         \<and> (0 < n \<and> n \<le> int (len b) \<and> len b \<le> cap b \<longrightarrow>
               slice_upto b n = Inr \<lparr>arr = arr b, len = nat n\<rparr>
             \<and> contents \<lparr>arr = arr b, len = nat n\<rparr> = take (nat n) (contents b)
             \<and> length (contents \<lparr>arr = arr b, len = nat n\<rparr>) = nat n)"
proof -
  have "Write this b w =
           go_bind (if 0 < n then go_try (slice_upto b n) (reportWriteEvent this)
                    else go_return ()) (\<lambda>_.
           go_bind (case err of None \<Rightarrow> go_return ()
                    | Some e \<Rightarrow> reportErrorEvent this ''Write()'' e) (\<lambda>_.
           go_return (n, err))) w1"
    using assms by (simp add: Write_def assert_io_Writer_def go_simps)
  moreover have "slice_upto b n = Inr \<lparr>arr = arr b, len = nat n\<rparr>
             \<and> contents \<lparr>arr = arr b, len = nat n\<rparr> = take (nat n) (contents b)
             \<and> length (contents \<lparr>arr = arr b, len = nat n\<rparr>) = nat n"
    if "0 < n" "n \<le> int (len b)" "len b \<le> cap b"
  proof -
    from that have le: "nat n \<le> len b" "nat n \<le> length (arr b)"
      by (simp_all add: cap_def)
    then show ?thesis
      using that by (simp add: slice_upto_def cap_def contents_def gslice_update_len min_absorb1)
  qed
  ultimately show ?thesis by blast
qed

theorem Write_forwards_then_reports_witness:
  "method_Write (proxiedObject
      (StringToWriter test_runtime MockIO_object bytes_Buffer_Write
         ''R [%v]'' ''W [%v]'' ''E [%v: %v]'' ''C'')) = Some MockIO_Write
   \<and> MockIO_Write (make_slice (bytes_of_string ''test''))
        (test_start (new_MockIO\<lparr>FailAfterWriteByteCount := 2\<rparr>))
       = Inr ((2, Some ''ERROR!''),
              test_start (new_MockIO\<lparr>FailAfterWriteByteCount := 2,
                                     WriteContents := bytes_of_string ''te''\<rparr>))
   \<and> (0 :: int) < 2 \<and> (2 :: int) \<le> int (len (make_slice (bytes_of_string ''test'')))
   \<and> len (make_slice (bytes_of_string ''test'')) \<le> cap (make_slice (bytes_of_string ''test''))
   \<and> Write (StringToWriter test_runtime MockIO_object bytes_Buffer_Write
              ''R [%v]'' ''W [%v]'' ''E [%v: %v]'' ''C'')
        (make_slice (bytes_of_string ''test''))
        (test_start (new_MockIO\<lparr>FailAfterWriteByteCount := 2\<rparr>))
       = Inr ((2, Some ''ERROR!''),
              (test_start (new_MockIO\<lparr>FailAfterWriteByteCount := 2,
                                      WriteContents := bytes_of_string ''te''\<rparr>))
                \<lparr>buffer := bytes_of_string ''W [te]E [Write(): ERROR!]''\<rparr>)
   \<and> contents \<lparr>arr = arr (make_slice (bytes_of_string ''test'')), len = nat 2\<rparr>
       = bytes_of_string ''te''"
proof -
  let ?p = "StringToWriter test_runtime MockIO_object bytes_Buffer_Write
              ''R [%v]'' ''W [%v]'' ''E [%v: %v]'' ''C''"
  let ?b = "make_slice (bytes_of_string ''test'')"
  let ?w = "test_start (new_MockIO\<lparr>FailAfterWriteByteCount := 2\<rparr>)"
  let ?w1 = "test_start (new_MockIO\<lparr>FailAfterWriteByteCount := 2,
                                     WriteContents := bytes_of_string ''te''\<rparr>)"
  have h1: "method_Write (proxiedObject ?p) = Some MockIO_Write"
    by (simp add: StringToWriter_def Generic_def MockIO_object_def)
  have h2: "MockIO_Write ?b ?w = Inr ((2, Some ''ERROR!''), ?w1)"
    by code_simp
  have h3: "(0 :: int) < 2 \<and> (2 :: int) \<le> int (len ?b) \<and> len ?b \<le> cap ?b"
    by (simp add: cap_def make_slice_def bytes_of_string_def)
  have r: "go_bind (if 0 < (2::int) then go_try (slice_upto ?b 2) (reportWriteEvent ?p)
                    else go_return ()) (\<lambda>_.
           go_bind (case Some ''ERROR!'' of None \<Rightarrow> go_return ()
                    | Some e \<Rightarrow> reportErrorEvent ?p ''Write()'' e) (\<lambda>_.
           go_return (2 :: int, Some ''ERROR!''))) ?w1
        = Inr ((2, Some ''ERROR!''),
               ?w1\<lparr>buffer := bytes_of_string ''W [te]E [Write(): ERROR!]''\<rparr>)"
    by code_simp
  have c: "take (nat 2) (contents ?b) = bytes_of_string ''te''"
    by code_simp
  from Write_forwards_then_reports [OF h1 h2] r h1 h2 h3 c show ?thesis
    by simp
qed

lemma Write_count_beyond_capacity:
  assumes "method_Write (proxiedObject this) = Some writer"
    and "writer b w = Inr ((n, err), w1)"
    and "int (cap b) < n"
  shows "Write this b w = Inl (SliceBoundsOutOfRange n (cap b))"
  using assms
  by (simp add: Write_def assert_io_Writer_def slice_upto_def go_simps)

text \<open>
  Claim C3. When the proxied object has a \<open>Close\<close> method, \<open>Close\<close> of the proxy calls
  it, then calls the close callback once, whether or not an error came back, and after
  that, if an error came back, calls the error callback with the tag \<open>Close()\<close> and the
  error. The error of the object is returned as it is.
\<close>

theorem Close_forwards_then_reports:
  assumes "method_Close (proxiedObject this) = Some closer"
    and "closer w = Inr (err, w1)"
  shows "Close this w =
           go_bind (reportCloseEvent this) (\<lambda>_.
           go_bind (case err of None \<Rightarrow> go_return ()
                    | Some e \<Rightarrow> reportErrorEvent this ''Close()'' e) (\<lambda>_.
           go_return err)) w1"
  using assms
  by (simp add: Close_def assert_io_Closer_def go_simps)

theorem Close_forwards_then_reports_witness:
  "method_Close (proxiedObject
      (StringToWriter test_runtime MockIO_object bytes_Buffer_Write
         ''R [%v]'' ''W [%v]'' ''E [%v: %v]'' ''C'')) = Some MockIO_Close
   \<and> MockIO_Close (test_start (new_MockIO\<lparr>FailNextOperations := True\<rparr>))
       = Inr (Some ''ERROR!'',
              test_start (new_MockIO\<lparr>FailNextOperations := True, CloseCallCount := 1\<rparr>))
   \<and> Close (StringToWriter test_runtime MockIO_object bytes_Buffer_Write
              ''R [%v]'' ''W [%v]'' ''E [%v: %v]'' ''C'')
        (test_start (new_MockIO\<lparr>FailNextOperations := True\<rparr>))
       = Inr (Some ''ERROR!'',
              (test_start (new_MockIO\<lparr>FailNextOperations := True, CloseCallCount := 1\<rparr>))
                \<lparr>buffer := bytes_of_string ''CE [Close(): ERROR!]''\<rparr>)"
proof -
  let ?p = "StringToWriter test_runtime MockIO_object bytes_Buffer_Write
              ''R [%v]'' ''W [%v]'' ''E [%v: %v]'' ''C''"
  let ?w = "test_start (new_MockIO\<lparr>FailNextOperations := True\<rparr>)"
  let ?w1 = "test_start (new_MockIO\<lparr>FailNextOperations := True, CloseCallCount := 1\<rparr>)"
  have h1: "method_Close (proxiedObject ?p) = Some MockIO_Close"
    by (simp add: StringToWriter_def Generic_def MockIO_object_def)
  have h2: "MockIO_Close ?w = Inr (Some ''ERROR!'', ?w1)"
    by code_simp
  have r: "go_bind (reportCloseEvent ?p) (\<lambda>_.
           go_bind (case Some ''ERROR!'' of None \<Rightarrow> go_return ()
                    | Some e \<Rightarrow> reportErrorEvent ?p ''Close()'' e) (\<lambda>_.
           go_return (Some ''ERROR!''))) ?w1
        = Inr (Some ''ERROR!'', ?w1\<lparr>buffer := bytes_of_string ''CE [Close(): ERROR!]''\<rparr>)"
    by code_simp
  from Close_forwards_then_reports [OF h1 h2] r h1 h2 show ?thesis
    by simp
qed

lemma assert_net_Conn_Inr:
  "assert_net_Conn x = Inr conn \<Longrightarrow>
     method_SetDeadline x = Some (conn_SetDeadline conn)
   \<and> method_SetReadDeadline x = Some (conn_SetReadDeadline conn)
   \<and> method_SetWriteDeadline x = Some (conn_SetWriteDeadline conn)
   \<and> method_LocalAddr x = Some (conn_LocalAddr conn)
   \<and> method_RemoteAddr x = Some (conn_RemoteAddr conn)
   \<and> method_Read x = Some (conn_Read conn)
   \<and> method_Write x = Some (conn_Write conn)
   \<and> method_Close x = Some (conn_Close conn)"
  by (auto simp: assert_net_Conn_def split: option.splits)

lemma assert_net_Conn_missing:
  "method_Read x = None \<or> method_Write x = None \<or> method_Close x = None
   \<or> method_LocalAddr x = None \<or> method_RemoteAddr x = None
   \<or> method_SetDeadline x = None \<or> method_SetReadDeadline x = None
   \<or> method_SetWriteDeadline x = None \<Longrightarrow>
   assert_net_Conn x = Inl (InterfaceConversion ''net.Conn'')"
  by (auto simp: assert_net_Conn_def split: option.splits)

text \<open>
  Claim C9. When the proxied object is a \<open>net.Conn\<close>, each of \<open>SetDeadline\<close>,
  \<open>SetReadDeadline\<close> and \<open>SetWriteDeadline\<close> of the proxy calls the method of the same
  name of the object. If no error comes back, no callback is called; if an error comes
  back, the error callback is called with the tag of the operation and the error. The
  error of the object is returned as it is. The read, write and close callbacks are never
  called: replacing them by any others changes nothing.
\<close>

theorem deadline_operations_report_errors_only:
  assumes "assert_net_Conn (proxiedObject this) = Inr conn"
  shows
    "(\<forall>err w1. conn_SetDeadline conn t w = Inr (err, w1) \<longrightarrow>
        SetDeadline this t w =
          (case err of None \<Rightarrow> Inr (None, w1)
           | Some e \<Rightarrow> go_bind (reportErrorEvent this ''SetDeadline()'' e)
                         (\<lambda>_. go_return (Some e)) w1))
   \<and> (\<forall>err w1. conn_SetReadDeadline conn t w = Inr (err, w1) \<longrightarrow>
        SetReadDeadline this t w =
          (case err of None \<Rightarrow> Inr (None, w1)
           | Some e \<Rightarrow> go_bind (reportErrorEvent this ''SetReadDeadline()'' e)
                         (\<lambda>_. go_return (Some e)) w1))
   \<and> (\<forall>err w1. conn_SetWriteDeadline conn t w = Inr (err, w1) \<longrightarrow>
        SetWriteDeadline this t w =
          (case err of None \<Rightarrow> Inr (None, w1)
           | Some e \<Rightarrow> go_bind (reportErrorEvent this ''SetWriteDeadline()'' e)
                         (\<lambda>_. go_return (Some e)) w1))
   \<and> (\<forall>onRead onWrite onClose.
        SetDeadline (this\<lparr>reportReadEvent := onRead, reportWriteEvent := onWrite,
                          reportCloseEvent := onClose\<rparr>) t w = SetDeadline this t w
      \<and> SetReadDeadline (this\<lparr>reportReadEvent := onRead, reportWriteEvent := onWrite,
                          reportCloseEvent := onClose\<rparr>) t w = SetReadDeadline this t w
      \<and> SetWriteDeadline (this\<lparr>reportReadEvent := onRead, reportWriteEvent := onWrite,
                          reportCloseEvent := onClose\<rparr>) t w = SetWriteDeadline this t w)"
proof -
  have a: "SetDeadline this t w =
      (case err of None \<Rightarrow> Inr (None, w1)
       | Some e \<Rightarrow> go_bind (reportErrorEvent this ''SetDeadline()'' e)
                     (\<lambda>_. go_return (Some e)) w1)"
    if "conn_SetDeadline conn t w = Inr (err, w1)" for err w1
    using assms that by (cases err) (simp_all add: SetDeadline_def go_simps)
  have b: "SetReadDeadline this t w =
      (case err of None \<Rightarrow> Inr (None, w1)
       | Some e \<Rightarrow> go_bind (reportErrorEvent this ''SetReadDeadline()'' e)
                     (\<lambda>_. go_return (Some e)) w1)"
    if "conn_SetReadDeadline conn t w = Inr (err, w1)" for err w1
    using assms that by (cases err) (simp_all add: SetReadDeadline_def go_simps)
  have c: "SetWriteDeadline this t w =
      (case err of None \<Rightarrow> Inr (None, w1)
       | Some e \<Rightarrow> go_bind (reportErrorEvent this ''SetWriteDeadline()'' e)
                     (\<lambda>_. go_return (Some e)) w1)"
    if "conn_SetWriteDeadline conn t w = Inr (err, w1)" for err w1
    using assms that by (cases err) (simp_all add: SetWriteDeadline_def go_simps)
  have d: "SetDeadline (this\<lparr>reportReadEvent := onRead, reportWriteEvent := onWrite,
                          reportCloseEvent := onClose\<rparr>) t w = SetDeadline this t w"
    "SetReadDeadline (this\<lparr>reportReadEvent := onRead, reportWriteEvent := onWrite,
                          reportCloseEvent := onClose\<rparr>) t w = SetReadDeadline this t w"
    "SetWriteDeadline (this\<lparr>reportReadEvent := onRead, reportWriteEvent := onWrite,
                          reportCloseEvent := onClose\<rparr>) t w = SetWriteDeadline this t w"
    for onRead onWrite onClose
    by (simp_all add: SetDeadline_def SetReadDeadline_def SetWriteDeadline_def
        cong: option.case_cong)
  from a b c d show ?thesis by blast
qed

theorem deadline_operations_report_errors_only_witness:
  "assert_net_Conn (proxiedObject
      (StringToWriter test_runtime MockIO_object bytes_Buffer_Write
         ''R [%v]'' ''W [%v]'' ''E [%v: %v]'' ''C''))
     = Inr \<lparr>conn_Read = MockIO_Read, conn_Write = MockIO_Write, conn_Close = MockIO_Close,
            conn_LocalAddr = MockIO_LocalAddr, conn_RemoteAddr = MockIO_RemoteAddr,
            conn_SetDeadline = MockIO_SetDeadline,
            conn_SetReadDeadline = MockIO_SetReadDeadline,
            conn_SetWriteDeadline = MockIO_SetWriteDeadline\<rparr>
   \<and> MockIO_SetDeadline 5 (test_start (new_MockIO\<lparr>FailNextOperations := True\<rparr>))
       = Inr (Some ''ERROR!'',
              test_start (new_MockIO\<lparr>FailNextOperations := True, SetDeadlineCallCount := 1\<rparr>))
   \<and> SetDeadline (StringToWriter test_runtime MockIO_object bytes_Buffer_Write
                    ''R [%v]'' ''W [%v]'' ''E [%v: %v]'' ''C'')
        5 (test_start (new_MockIO\<lparr>FailNextOperations := True\<rparr>))
       = Inr (Some ''ERROR!'',
              (test_start (new_MockIO\<lparr>FailNextOperations := True, SetDeadlineCallCount := 1\<rparr>))
                \<lparr>buffer := bytes_of_string ''E [SetDeadline(): ERROR!]''\<rparr>)
   \<and> MockIO_SetReadDeadline 5 (test_start (new_MockIO\<lparr>FailNextOperations := True\<rparr>))
       = Inr (Some ''ERROR!'',
              test_start (new_MockIO\<lparr>FailNextOperations := True,
                                     SetReadDeadlineCallCount := 1\<rparr>))
   \<and> SetReadDeadline (StringToWriter test_runtime MockIO_object bytes_Buffer_Write
                    ''R [%v]'' ''W [%v]'' ''E [%v: %v]'' ''C'')
        5 (test_start (new_MockIO\<lparr>FailNextOperations := True\<rparr>))
       = Inr (Some ''ERROR!'',
              (test_start (new_MockIO\<lparr>FailNextOperations := True,
                                      SetReadDeadlineCallCount := 1\<rparr>))
                \<lparr>buffer := bytes_of_string ''E [SetReadDeadline(): ERROR!]''\<rparr>)
   \<and> MockIO_SetWriteDeadline 5 (test_start new_MockIO)
       = Inr (None, test_start (new_MockIO\<lparr>SetWriteDeadlineCallCount := 1\<rparr>))
   \<and> SetWriteDeadline (StringToWriter test_runtime MockIO_object bytes_Buffer_Write
                    ''R [%v]'' ''W [%v]'' ''E [%v: %v]'' ''C'')
        5 (test_start new_MockIO)
       = Inr (None, test_start (new_MockIO\<lparr>SetWriteDeadlineCallCount := 1\<rparr>))"
proof -
  let ?p = "StringToWriter test_runtime MockIO_object bytes_Buffer_Write
              ''R [%v]'' ''W [%v]'' ''E [%v: %v]'' ''C''"
  let ?conn = "\<lparr>conn_Read = MockIO_Read, conn_Write = MockIO_Write, conn_Close = MockIO_Close,
            conn_LocalAddr = MockIO_LocalAddr, conn_RemoteAddr = MockIO_RemoteAddr,
            conn_SetDeadline = MockIO_SetDeadline,
            conn_SetReadDeadline = MockIO_SetReadDeadline,
            conn_SetWriteDeadline = MockIO_SetWriteDeadline\<rparr>"
  let ?wf = "test_start (new_MockIO\<lparr>FailNextOperations := True\<rparr>)"
  let ?w1 = "test_start (new_MockIO\<lparr>FailNextOperations := True, SetDeadlineCallCount := 1\<rparr>)"
  let ?w2 = "test_start (new_MockIO\<lparr>FailNextOperations := True,
                                     SetReadDeadlineCallCount := 1\<rparr>)"
  let ?w0 = "test_start new_MockIO"
  let ?w3 = "test_start (new_MockIO\<lparr>SetWriteDeadlineCallCount := 1\<rparr>)"
  have h: "assert_net_Conn (proxiedObject ?p) = Inr ?conn"
    by (simp add: StringToWriter_def Generic_def MockIO_object_def assert_net_Conn_def)
  have s1: "conn_SetDeadline ?conn 5 ?wf = Inr (Some ''ERROR!'', ?w1)"
    by code_simp
  have s2: "conn_SetReadDeadline ?conn 5 ?wf = Inr (Some ''ERROR!'', ?w2)"
    by code_simp
  have s3: "conn_SetWriteDeadline ?conn 5 ?w0 = Inr (None, ?w3)"
    by code_simp
  have r1: "go_bind (reportErrorEvent ?p ''SetDeadline()'' ''ERROR!'')
              (\<lambda>_. go_return (Some ''ERROR!'')) ?w1
            = Inr (Some ''ERROR!'', ?w1\<lparr>buffer := bytes_of_string ''E [SetDeadline(): ERROR!]''\<rparr>)"
    by code_simp
  have r2: "go_bind (reportErrorEvent ?p ''SetReadDeadline()'' ''ERROR!'')
              (\<lambda>_. go_return (Some ''ERROR!'')) ?w2
            = Inr (Some ''ERROR!'',
                   ?w2\<lparr>buffer := bytes_of_string ''E [SetReadDeadline(): ERROR!]''\<rparr>)"
    by code_simp
  from deadline_operations_report_errors_only [OF h, of 5 ?wf] s1 r1
  have a: "SetDeadline ?p 5 ?wf
      = Inr (Some ''ERROR!'', ?w1\<lparr>buffer := bytes_of_string ''E [SetDeadline(): ERROR!]''\<rparr>)"
    by simp
  from deadline_operations_report_errors_only [OF h, of 5 ?wf] s2 r2
  have b: "SetReadDeadline ?p 5 ?wf
      = Inr (Some ''ERROR!'', ?w2\<lparr>buffer := bytes_of_string ''E [SetReadDeadline(): ERROR!]''\<rparr>)"
    by simp
  from deadline_operations_report_errors_only [OF h, of 5 ?w0] s3
  have c: "SetWriteDeadline ?p 5 ?w0 = Inr (None, ?w3)"
    by simp
  from h s1 s2 s3 a b c show ?thesis by simp
qed

text \<open>
  Claim C10. The eight methods of the proxy in loggedio.go are the same functions of the
  proxy (its object and its four callbacks), the arguments and the state of the world as
  the eight methods in the other source file: same result, same calls of the callbacks
  with the same arguments in the same order.
\<close>

theorem both_sources_define_the_same_proxy:
  "loggedio_go_Read this = Read this
   \<and> loggedio_go_Write this = Write this
   \<and> loggedio_go_Close this = Close this
   \<and> loggedio_go_LocalAddr this = LocalAddr this
   \<and> loggedio_go_RemoteAddr this = RemoteAddr this
   \<and> loggedio_go_SetDeadline this = SetDeadline this
   \<and> loggedio_go_SetReadDeadline this = SetReadDeadline this
   \<and> loggedio_go_SetWriteDeadline this = SetWriteDeadline this"
  unfolding loggedio_go_Read_def loggedio_go_Write_def loggedio_go_Close_def
    loggedio_go_LocalAddr_def loggedio_go_RemoteAddr_def loggedio_go_SetDeadline_def
    loggedio_go_SetReadDeadline_def loggedio_go_SetWriteDeadline_def
    Read_def Write_def Close_def LocalAddr_def RemoteAddr_def SetDeadline_def
    SetReadDeadline_def SetWriteDeadline_def
  by (intro conjI ext refl)

lemma NullWriter_callbacks:
  "reportReadEvent (StringToWriter rt obj NullWriter_Write readFmt writeFmt errorFmt closeMsg) s w = Inr ((), w)"
  "reportWriteEvent (StringToWriter rt obj NullWriter_Write readFmt writeFmt errorFmt closeMsg) s w = Inr ((), w)"
  "reportErrorEvent (StringToWriter rt obj NullWriter_Write readFmt writeFmt errorFmt closeMsg) tag e w = Inr ((), w)"
  "reportCloseEvent (StringToWriter rt obj NullWriter_Write readFmt writeFmt errorFmt closeMsg) w = Inr ((), w)"
  "proxiedObject (StringToWriter rt obj NullWriter_Write readFmt writeFmt errorFmt closeMsg) = obj"
  by (simp_all add: StringToWriter_def Generic_def byteFunc_def errFunc_def closeFunc_def
      ignore_result_def fmt_Fprintf_def NullWriter_Write_def go_simps)

text \<open>
  Claim C4. Building a proxy stores the object as it is, whatever methods it has, so
  construction cannot fail. Each of the eight operations asserts the interface it needs
  at the call: \<open>Read\<close>, \<open>Write\<close> and \<open>Close\<close> panic when the object lacks the method of
  that name, and \<open>LocalAddr\<close>, \<open>RemoteAddr\<close> and the three deadline operations panic when
  the object lacks any of the eight methods of \<open>net.Conn\<close>. The panic is a failed
  interface conversion, not a returned error. An operation whose interface the same
  object does have still succeeds: with the proxy of the tests, which reports to a
  \<open>NullWriter\<close>, it returns what the object returns, in the state the object left.
\<close>

theorem missing_capability_panics_at_the_call:
  "proxiedObject (Generic obj onRead onWrite onError onClose) = obj
   \<and> proxiedObject (StringToWriter rt obj NullWriter_Write readFmt writeFmt errorFmt closeMsg) = obj
   \<and> (method_Read (proxiedObject this) = None \<longrightarrow>
        Read this b w = Inl (InterfaceConversion ''io.Reader''))
   \<and> (method_Write (proxiedObject this) = None \<longrightarrow>
        Write this b w = Inl (InterfaceConversion ''io.Writer''))
   \<and> (method_Close (proxiedObject this) = None \<longrightarrow>
        Close this w = Inl (InterfaceConversion ''io.Closer''))
   \<and> (method_Read (proxiedObject this) = None \<or> method_Write (proxiedObject this) = None
        \<or> method_Close (proxiedObject this) = None
        \<or> method_LocalAddr (proxiedObject this) = None
        \<or> method_RemoteAddr (proxiedObject this) = None
        \<or> method_SetDeadline (proxiedObject this) = None
        \<or> method_SetReadDeadline (proxiedObject this) = None
        \<or> method_SetWriteDeadline (proxiedObject this) = None \<longrightarrow>
        LocalAddr this w = Inl (InterfaceConversion ''net.Conn'')
      \<and> RemoteAddr this w = Inl (InterfaceConversion ''net.Conn'')
      \<and> SetDeadline this t w = Inl (InterfaceConversion ''net.Conn'')
      \<and> SetReadDeadline this t w = Inl (InterfaceConversion ''net.Conn'')
      \<and> SetWriteDeadline this t w = Inl (InterfaceConversion ''net.Conn''))
   \<and> (\<forall>reader arr' n err w1.
        method_Read obj = Some reader \<and> reader b w = Inr ((arr', n, err), w1)
        \<and> n \<le> int (length arr') \<longrightarrow>
        Read (StringToWriter rt obj NullWriter_Write readFmt writeFmt errorFmt closeMsg) b w
          = Inr ((arr', n, err), w1))
   \<and> (\<forall>writer n err w1.
        method_Write obj = Some writer \<and> writer b w = Inr ((n, err), w1)
        \<and> n \<le> int (cap b) \<longrightarrow>
        Write (StringToWriter rt obj NullWriter_Write readFmt writeFmt errorFmt closeMsg) b w = Inr ((n, err), w1))
   \<and> (\<forall>closer err w1.
        method_Close obj = Some closer \<and> closer w = Inr (err, w1) \<longrightarrow>
        Close (StringToWriter rt obj NullWriter_Write readFmt writeFmt errorFmt closeMsg) w = Inr (err, w1))
   \<and> (\<forall>conn.
        assert_net_Conn obj = Inr conn \<longrightarrow>
        LocalAddr (StringToWriter rt obj NullWriter_Write readFmt writeFmt errorFmt closeMsg) w = conn_LocalAddr conn w
      \<and> RemoteAddr (StringToWriter rt obj NullWriter_Write readFmt writeFmt errorFmt closeMsg) w
          = conn_RemoteAddr conn w
      \<and> (\<forall>err w1. conn_SetDeadline conn t w = Inr (err, w1) \<longrightarrow>
            SetDeadline (StringToWriter rt obj NullWriter_Write readFmt writeFmt errorFmt closeMsg) t w
              = Inr (err, w1))
      \<and> (\<forall>err w1. conn_SetReadDeadline conn t w = Inr (err, w1) \<longrightarrow>
            SetReadDeadline (StringToWriter rt obj NullWriter_Write readFmt writeFmt errorFmt closeMsg) t w
              = Inr (err, w1))
      \<and> (\<forall>err w1. conn_SetWriteDeadline conn t w = Inr (err, w1) \<longrightarrow>
            SetWriteDeadline (StringToWriter rt obj NullWriter_Write readFmt writeFmt errorFmt closeMsg) t w
              = Inr (err, w1)))"
proof -
  let ?p = "StringToWriter rt obj NullWriter_Write readFmt writeFmt errorFmt closeMsg"
  have c1: "proxiedObject (Generic obj onRead onWrite onError onClose) = obj"
    by (simp add: Generic_def)
  have c2: "proxiedObject ?p = obj"
    by (rule NullWriter_callbacks)
  have p1: "Read this b w = Inl (InterfaceConversion ''io.Reader'')"
    if "method_Read (proxiedObject this) = None"
    using that by (simp add: Read_def assert_io_Reader_def go_simps)
  have p2: "Write this b w = Inl (InterfaceConversion ''io.Writer'')"
    if "method_Write (proxiedObject this) = None"
    using that by (simp add: Write_def assert_io_Writer_def go_simps)
  have p3: "Close this w = Inl (InterfaceConversion ''io.Closer'')"
    if "method_Close (proxiedObject this) = None"
    using that by (simp add: Close_def assert_io_Closer_def go_simps)
  have p4: "LocalAddr this w = Inl (InterfaceConversion ''net.Conn'')
      \<and> RemoteAddr this w = Inl (InterfaceConversion ''net.Conn'')
      \<and> SetDeadline this t w = Inl (InterfaceConversion ''net.Conn'')
      \<and> SetReadDeadline this t w = Inl (InterfaceConversion ''net.Conn'')
      \<and> SetWriteDeadline this t w = Inl (InterfaceConversion ''net.Conn'')"
    if "method_Read (proxiedObject this) = None \<or> method_Write (proxiedObject this) = None
        \<or> method_Close (proxiedObject this) = None
        \<or> method_LocalAddr (proxiedObject this) = None
        \<or> method_RemoteAddr (proxiedObject this) = None
        \<or> method_SetDeadline (proxiedObject this) = None
        \<or> method_SetReadDeadline (proxiedObject this) = None
        \<or> method_SetWriteDeadline (proxiedObject this) = None"
    using assert_net_Conn_missing [OF that]
    by (simp add: LocalAddr_def RemoteAddr_def SetDeadline_def SetReadDeadline_def
        SetWriteDeadline_def go_simps)
  have s1: "Read ?p b w = Inr ((arr', n, err), w1)"
    if "method_Read obj = Some reader" "reader b w = Inr ((arr', n, err), w1)"
       "n \<le> int (length arr')" for reader arr' n err w1
    using that
    by (cases err)
       (simp_all add: Read_def assert_io_Reader_def slice_upto_def cap_def go_simps
         NullWriter_callbacks)
  have s2: "Write ?p b w = Inr ((n, err), w1)"
    if "method_Write obj = Some writer" "writer b w = Inr ((n, err), w1)"
       "n \<le> int (cap b)" for writer n err w1
    using that
    by (cases err)
       (simp_all add: Write_def assert_io_Writer_def slice_upto_def go_simps
         NullWriter_callbacks)
  have s3: "Close ?p w = Inr (err, w1)"
    if "method_Close obj = Some closer" "closer w = Inr (err, w1)" for closer err w1
    using that
    by (cases err)
       (simp_all add: Close_def assert_io_Closer_def go_simps NullWriter_callbacks)
  have s4: "LocalAddr ?p w = conn_LocalAddr conn w
      \<and> RemoteAddr ?p w = conn_RemoteAddr conn w
      \<and> (\<forall>err w1. conn_SetDeadline conn t w = Inr (err, w1) \<longrightarrow>
            SetDeadline ?p t w = Inr (err, w1))
      \<and> (\<forall>err w1. conn_SetReadDeadline conn t w = Inr (err, w1) \<longrightarrow>
            SetReadDeadline ?p t w = Inr (err, w1))
      \<and> (\<forall>err w1. conn_SetWriteDeadline conn t w = Inr (err, w1) \<longrightarrow>
            SetWriteDeadline ?p t w = Inr (err, w1))"
    if "assert_net_Conn obj = Inr conn" for conn
    using that
    by (auto simp: LocalAddr_def RemoteAddr_def SetDeadline_def SetReadDeadline_def
        SetWriteDeadline_def go_simps NullWriter_callbacks split: option.splits)
  from c1 c2 p1 p2 p3 p4 s1 s2 s3 s4 show ?thesis
    by blast
qed

theorem missing_capability_panics_at_the_call_witness:
  "method_Read (proxiedObject
      (StringToWriter test_runtime MockWriter_object NullWriter_Write ''%v'' ''%v'' ''%v'' [])) = None
   \<and> Read (StringToWriter test_runtime MockWriter_object NullWriter_Write ''%v'' ''%v'' ''%v'' [])
        (make_slice [0]) (test_start new_MockIO) = Inl (InterfaceConversion ''io.Reader'')
   \<and> method_Write (proxiedObject
      (StringToWriter test_runtime MockReader_object NullWriter_Write ''%v'' ''%v'' ''%v'' [])) = None
   \<and> Write (StringToWriter test_runtime MockReader_object NullWriter_Write ''%v'' ''%v'' ''%v'' [])
        (make_slice [1]) (test_start new_MockIO) = Inl (InterfaceConversion ''io.Writer'')
   \<and> method_Close (proxiedObject
      (StringToWriter test_runtime MockReader_object NullWriter_Write ''%v'' ''%v'' ''%v'' [])) = None
   \<and> Close (StringToWriter test_runtime MockReader_object NullWriter_Write ''%v'' ''%v'' ''%v'' [])
        (test_start new_MockIO) = Inl (InterfaceConversion ''io.Closer'')
   \<and> LocalAddr (StringToWriter test_runtime MockReader_object NullWriter_Write ''%v'' ''%v'' ''%v'' [])
        (test_start new_MockIO) = Inl (InterfaceConversion ''net.Conn'')
   \<and> RemoteAddr (StringToWriter test_runtime MockReader_object NullWriter_Write ''%v'' ''%v'' ''%v'' [])
        (test_start new_MockIO) = Inl (InterfaceConversion ''net.Conn'')
   \<and> SetDeadline (StringToWriter test_runtime MockReader_object NullWriter_Write ''%v'' ''%v'' ''%v'' [])
        5 (test_start new_MockIO) = Inl (InterfaceConversion ''net.Conn'')
   \<and> SetReadDeadline (StringToWriter test_runtime MockReader_object NullWriter_Write ''%v'' ''%v'' ''%v'' [])
        5 (test_start new_MockIO) = Inl (InterfaceConversion ''net.Conn'')
   \<and> SetWriteDeadline (StringToWriter test_runtime MockReader_object NullWriter_Write ''%v'' ''%v'' ''%v'' [])
        5 (test_start new_MockIO) = Inl (InterfaceConversion ''net.Conn'')
   \<and> method_Read MockReader_object = Some MockIO_Read
   \<and> MockIO_Read (make_slice [0]) (test_start new_MockIO)
        = Inr (([97], 1, None), test_start new_MockIO)
   \<and> (1 :: int) \<le> int (length [97 :: byte])
   \<and> Read (StringToWriter test_runtime MockReader_object NullWriter_Write ''%v'' ''%v'' ''%v'' [])
        (make_slice [0]) (test_start new_MockIO)
        = Inr (([97], 1, None), test_start new_MockIO)
   \<and> method_Write MockWriter_object = Some MockIO_Write
   \<and> MockIO_Write (make_slice [1]) (test_start new_MockIO)
        = Inr ((1, None), test_start (new_MockIO\<lparr>WriteContents := [1]\<rparr>))
   \<and> (1 :: int) \<le> int (cap (make_slice [1]))
   \<and> Write (StringToWriter test_runtime MockWriter_object NullWriter_Write ''%v'' ''%v'' ''%v'' [])
        (make_slice [1]) (test_start new_MockIO)
        = Inr ((1, None), test_start (new_MockIO\<lparr>WriteContents := [1]\<rparr>))
   \<and> method_Close MockCloser_object = Some MockIO_Close
   \<and> MockIO_Close (test_start new_MockIO)
        = Inr (None, test_start (new_MockIO\<lparr>CloseCallCount := 1\<rparr>))
   \<and> Close (StringToWriter test_runtime MockCloser_object NullWriter_Write ''%v'' ''%v'' ''%v'' [])
        (test_start new_MockIO)
        = Inr (None, test_start (new_MockIO\<lparr>CloseCallCount := 1\<rparr>))
   \<and> assert_net_Conn MockIO_object
        = Inr \<lparr>conn_Read = MockIO_Read, conn_Write = MockIO_Write, conn_Close = MockIO_Close,
               conn_LocalAddr = MockIO_LocalAddr, conn_RemoteAddr = MockIO_RemoteAddr,
               conn_SetDeadline = MockIO_SetDeadline,
               conn_SetReadDeadline = MockIO_SetReadDeadline,
               conn_SetWriteDeadline = MockIO_SetWriteDeadline\<rparr>
   \<and> LocalAddr (StringToWriter test_runtime MockIO_object NullWriter_Write ''%v'' ''%v'' ''%v'' [])
        (test_start new_MockIO)
        = Inr (None, test_start (new_MockIO\<lparr>LocalAddrCallCount := 1\<rparr>))
   \<and> RemoteAddr (StringToWriter test_runtime MockIO_object NullWriter_Write ''%v'' ''%v'' ''%v'' [])
        (test_start new_MockIO)
        = Inr (None, test_start (new_MockIO\<lparr>RemoteAddrCallCount := 1\<rparr>))
   \<and> MockIO_SetDeadline 5 (test_start new_MockIO)
        = Inr (None, test_start (new_MockIO\<lparr>SetDeadlineCallCount := 1\<rparr>))
   \<and> SetDeadline (StringToWriter test_runtime MockIO_object NullWriter_Write ''%v'' ''%v'' ''%v'' [])
        5 (test_start new_MockIO)
        = Inr (None, test_start (new_MockIO\<lparr>SetDeadlineCallCount := 1\<rparr>))
   \<and> MockIO_SetReadDeadline 5 (test_start new_MockIO)
        = Inr (None, test_start (new_MockIO\<lparr>SetReadDeadlineCallCount := 1\<rparr>))
   \<and> SetReadDeadline (StringToWriter test_runtime MockIO_object NullWriter_Write ''%v'' ''%v'' ''%v'' [])
        5 (test_start new_MockIO)
        = Inr (None, test_start (new_MockIO\<lparr>SetReadDeadlineCallCount := 1\<rparr>))
   \<and> MockIO_SetWriteDeadline 5 (test_start new_MockIO)
        = Inr (None, test_start (new_MockIO\<lparr>SetWriteDeadlineCallCount := 1\<rparr>))
   \<and> SetWriteDeadline (StringToWriter test_runtime MockIO_object NullWriter_Write ''%v'' ''%v'' ''%v'' [])
        5 (test_start new_MockIO)
        = Inr (None, test_start (new_MockIO\<lparr>SetWriteDeadlineCallCount := 1\<rparr>))"
proof -
  let ?P = "\<lambda>obj. StringToWriter test_runtime obj NullWriter_Write ''%v'' ''%v'' ''%v'' []"
  let ?w = "test_start new_MockIO"
  let ?conn = "\<lparr>conn_Read = MockIO_Read, conn_Write = MockIO_Write, conn_Close = MockIO_Close,
               conn_LocalAddr = MockIO_LocalAddr, conn_RemoteAddr = MockIO_RemoteAddr,
               conn_SetDeadline = MockIO_SetDeadline,
               conn_SetReadDeadline = MockIO_SetReadDeadline,
               conn_SetWriteDeadline = MockIO_SetWriteDeadline\<rparr>"
  note on_reader = missing_capability_panics_at_the_call
    [where this = "?P MockReader_object" and obj = MockReader_object and rt = test_runtime
       and b = "make_slice [0]" and w = ?w and t = 5
       and readFmt = "''%v''" and writeFmt = "''%v''" and errorFmt = "''%v''" and closeMsg = "[]"
       and onRead = "\<lambda>_. go_return ()" and onWrite = "\<lambda>_. go_return ()"
       and onError = "\<lambda>_ _. go_return ()" and onClose = "go_return ()"]
  note on_reader_w = missing_capability_panics_at_the_call
    [where this = "?P MockReader_object" and obj = MockReader_object and rt = test_runtime
       and b = "make_slice [1]" and w = ?w and t = 5
       and readFmt = "''%v''" and writeFmt = "''%v''" and errorFmt = "''%v''" and closeMsg = "[]"
       and onRead = "\<lambda>_. go_return ()" and onWrite = "\<lambda>_. go_return ()"
       and onError = "\<lambda>_ _. go_return ()" and onClose = "go_return ()"]
  note on_writer = missing_capability_panics_at_the_call
    [where this = "?P MockWriter_object" and obj = MockWriter_object and rt = test_runtime
       and b = "make_slice [0]" and w = ?w and t = 5
       and readFmt = "''%v''" and writeFmt = "''%v''" and errorFmt = "''%v''" and closeMsg = "[]"
       and onRead = "\<lambda>_. go_return ()" and onWrite = "\<lambda>_. go_return ()"
       and onError = "\<lambda>_ _. go_return ()" and onClose = "go_return ()"]
  note on_writer_w = missing_capability_panics_at_the_call
    [where this = "?P MockWriter_object" and obj = MockWriter_object and rt = test_runtime
       and b = "make_slice [1]" and w = ?w and t = 5
       and readFmt = "''%v''" and writeFmt = "''%v''" and errorFmt = "''%v''" and closeMsg = "[]"
       and onRead = "\<lambda>_. go_return ()" and onWrite = "\<lambda>_. go_return ()"
       and onError = "\<lambda>_ _. go_return ()" and onClose = "go_return ()"]
  note on_closer = missing_capability_panics_at_the_call
    [where this = "?P MockCloser_object" and obj = MockCloser_object and rt = test_runtime
       and b = "make_slice [0]" and w = ?w and t = 5
       and readFmt = "''%v''" and writeFmt = "''%v''" and errorFmt = "''%v''" and closeMsg = "[]"
       and onRead = "\<lambda>_. go_return ()" and onWrite = "\<lambda>_. go_return ()"
       and onError = "\<lambda>_ _. go_return ()" and onClose = "go_return ()"]
  note on_conn = missing_capability_panics_at_the_call
    [where this = "?P MockIO_object" and obj = MockIO_object and rt = test_runtime
       and b = "make_slice [0]" and w = ?w and t = 5
       and readFmt = "''%v''" and writeFmt = "''%v''" and errorFmt = "''%v''" and closeMsg = "[]"
       and onRead = "\<lambda>_. go_return ()" and onWrite = "\<lambda>_. go_return ()"
       and onError = "\<lambda>_ _. go_return ()" and onClose = "go_return ()"]
  have m1: "method_Read (proxiedObject (?P MockWriter_object)) = None"
    by (simp add: StringToWriter_def Generic_def MockWriter_object_def no_methods_def)
  have m2: "method_Write (proxiedObject (?P MockReader_object)) = None"
    by (simp add: StringToWriter_def Generic_def MockReader_object_def no_methods_def)
  have m3: "method_Close (proxiedObject (?P MockReader_object)) = None"
    by (simp add: StringToWriter_def Generic_def MockReader_object_def no_methods_def)
  have g1: "method_Read MockReader_object = Some MockIO_Read"
    by (simp add: MockReader_object_def no_methods_def)
  have g2: "method_Write MockWriter_object = Some MockIO_Write"
    by (simp add: MockWriter_object_def no_methods_def)
  have g3: "method_Close MockCloser_object = Some MockIO_Close"
    by (simp add: MockCloser_object_def no_methods_def)
  have g4: "assert_net_Conn MockIO_object = Inr ?conn"
    by (simp add: MockIO_object_def assert_net_Conn_def)
  have e1: "MockIO_Read (make_slice [0]) ?w = Inr (([97], 1, None), ?w)"
    by code_simp
  have e2: "MockIO_Write (make_slice [1]) ?w
      = Inr ((1, None), test_start (new_MockIO\<lparr>WriteContents := [1]\<rparr>))"
    by code_simp
  have e3: "MockIO_Close ?w = Inr (None, test_start (new_MockIO\<lparr>CloseCallCount := 1\<rparr>))"
    by code_simp
  have e4: "MockIO_LocalAddr ?w = Inr (None, test_start (new_MockIO\<lparr>LocalAddrCallCount := 1\<rparr>))"
    by code_simp
  have e5: "MockIO_RemoteAddr ?w = Inr (None, test_start (new_MockIO\<lparr>RemoteAddrCallCount := 1\<rparr>))"
    by code_simp
  have e6: "MockIO_SetDeadline 5 ?w
      = Inr (None, test_start (new_MockIO\<lparr>SetDeadlineCallCount := 1\<rparr>))"
    by code_simp
  have e7: "MockIO_SetReadDeadline 5 ?w
      = Inr (None, test_start (new_MockIO\<lparr>SetReadDeadlineCallCount := 1\<rparr>))"
    by code_simp
  have e8: "MockIO_SetWriteDeadline 5 ?w
      = Inr (None, test_start (new_MockIO\<lparr>SetWriteDeadlineCallCount := 1\<rparr>))"
    by code_simp
  have l1: "(1 :: int) \<le> int (length [97 :: byte])" by simp
  have l2: "(1 :: int) \<le> int (cap (make_slice [1]))"
    by (simp add: cap_def make_slice_def)
  have a1: "Read (?P MockWriter_object) (make_slice [0]) ?w = Inl (InterfaceConversion ''io.Reader'')"
    using on_writer m1 by blast
  have a2: "Write (?P MockReader_object) (make_slice [1]) ?w = Inl (InterfaceConversion ''io.Writer'')"
    using on_reader_w m2 by blast
  have a3: "Close (?P MockReader_object) ?w = Inl (InterfaceConversion ''io.Closer'')"
    using on_reader m3 by blast
  have a4: "LocalAddr (?P MockReader_object) ?w = Inl (InterfaceConversion ''net.Conn'')
      \<and> RemoteAddr (?P MockReader_object) ?w = Inl (InterfaceConversion ''net.Conn'')
      \<and> SetDeadline (?P MockReader_object) 5 ?w = Inl (InterfaceConversion ''net.Conn'')
      \<and> SetReadDeadline (?P MockReader_object) 5 ?w = Inl (InterfaceConversion ''net.Conn'')
      \<and> SetWriteDeadline (?P MockReader_object) 5 ?w = Inl (InterfaceConversion ''net.Conn'')"
    using on_reader m2 by blast
  have b1: "Read (?P MockReader_object) (make_slice [0]) ?w = Inr (([97], 1, None), ?w)"
    using on_reader g1 e1 l1 by blast
  have b2: "Write (?P MockWriter_object) (make_slice [1]) ?w
      = Inr ((1, None), test_start (new_MockIO\<lparr>WriteContents := [1]\<rparr>))"
    using on_writer_w g2 e2 l2 by blast
  have b3: "Close (?P MockCloser_object) ?w
      = Inr (None, test_start (new_MockIO\<lparr>CloseCallCount := 1\<rparr>))"
    using on_closer g3 e3 by blast
  have b4: "LocalAddr (?P MockIO_object) ?w = conn_LocalAddr ?conn ?w
      \<and> RemoteAddr (?P MockIO_object) ?w = conn_RemoteAddr ?conn ?w
      \<and> (\<forall>err w1. conn_SetDeadline ?conn 5 ?w = Inr (err, w1) \<longrightarrow>
            SetDeadline (?P MockIO_object) 5 ?w = Inr (err, w1))
      \<and> (\<forall>err w1. conn_SetReadDeadline ?conn 5 ?w = Inr (err, w1) \<longrightarrow>
            SetReadDeadline (?P MockIO_object) 5 ?w = Inr (err, w1))
      \<and> (\<forall>err w1. conn_SetWriteDeadline ?conn 5 ?w = Inr (err, w1) \<longrightarrow>
            SetWriteDeadline (?P MockIO_object) 5 ?w = Inr (err, w1))"
    using on_conn g4 by blast
  from b4 e4 e5 e6 e7 e8 have b5:
    "LocalAddr (?P MockIO_object) ?w = Inr (None, test_start (new_MockIO\<lparr>LocalAddrCallCount := 1\<rparr>))"
    "RemoteAddr (?P MockIO_object) ?w = Inr (None, test_start (new_MockIO\<lparr>RemoteAddrCallCount := 1\<rparr>))"
    "SetDeadline (?P MockIO_object) 5 ?w
      = Inr (None, test_start (new_MockIO\<lparr>SetDeadlineCallCount := 1\<rparr>))"
    "SetReadDeadline (?P MockIO_object) 5 ?w
      = Inr (None, test_start (new_MockIO\<lparr>SetReadDeadlineCallCount := 1\<rparr>))"
    "SetWriteDeadline (?P MockIO_object) 5 ?w
      = Inr (None, test_start (new_MockIO\<lparr>SetWriteDeadlineCallCount := 1\<rparr>))"
    by simp_all
  show ?thesis
    using m1 m2 m3 g1 g2 g3 g4 e1 e2 e3 e6 e7 e8 l1 l2 a1 a2 a3 a4 b1 b2 b3 b5
    by (intro conjI) blast+
qed

section \<open>Chained proxies\<close>

lemma object_of_proxy_Write: "method_Write (object_of_proxy p) = Some (Write p)"
  by (simp add: object_of_proxy_def)

text \<open>
  Claim C6, as amended. When an outer proxy wraps an inner proxy that wraps an object
  with a \<open>Write\<close> method, a write on the outer proxy that the object accepts (a positive
  count within the data) calls the write callback of each proxy once, with the same
  accepted prefix, in the order in which the calls return: first the report of the inner
  proxy (its write callback, then its error callback if an error came back), then the
  report of the outer proxy. The count and the error of the object are returned as they
  are.
\<close>

theorem chained_write_reports_inner_first:
  assumes "proxiedObject outer = object_of_proxy inner"
    and "method_Write (proxiedObject inner) = Some writer"
    and "writer b w = Inr ((n, err), w1)"
    and "0 < n" and "n \<le> int (cap b)"
  shows "Write outer b w =
           go_bind (reportWriteEvent inner \<lparr>arr = arr b, len = nat n\<rparr>) (\<lambda>_.
           go_bind (case err of None \<Rightarrow> go_return ()
                    | Some e \<Rightarrow> reportErrorEvent inner ''Write()'' e) (\<lambda>_.
           go_bind (reportWriteEvent outer \<lparr>arr = arr b, len = nat n\<rparr>) (\<lambda>_.
           go_bind (case err of None \<Rightarrow> go_return ()
                    | Some e \<Rightarrow> reportErrorEvent outer ''Write()'' e) (\<lambda>_.
           go_return (n, err))))) w1"
proof -
  have inner: "Write inner b w =
           go_bind (reportWriteEvent inner \<lparr>arr = arr b, len = nat n\<rparr>) (\<lambda>_.
           go_bind (case err of None \<Rightarrow> go_return ()
                    | Some e \<Rightarrow> reportErrorEvent inner ''Write()'' e) (\<lambda>_.
           go_return (n, err))) w1"
    using assms(2-5) by (rule Write_accepted)
  have outer: "Write outer b w =
      go_bind (Write inner b) (\<lambda>(n, err).
      go_bind (if n > 0 then go_try (slice_upto b n) (reportWriteEvent outer)
               else go_return ()) (\<lambda>_.
      go_bind (case err of None \<Rightarrow> go_return ()
               | Some e \<Rightarrow> reportErrorEvent outer ''Write()'' e) (\<lambda>_.
      go_return (n, err)))) w"
    using assms(1)
    by (simp add: Write_def [of outer] assert_io_Writer_def object_of_proxy_Write go_try_def)
  show ?thesis
    unfolding outer
    using assms(4,5)
    by (simp add: go_bind_def inner [unfolded go_bind_def] go_return_def go_try_def
        go_panic_def slice_upto_def gslice_update_len
        split: sum.splits prod.splits)
qed


text \<open>
  The order stated in claim C6 (the report of the outer proxy first) fails on the example
  of the README: a hex proxy around a string proxy around an object that accepts the
  seven bytes of \<open>Testing\<close>, both reporting to the standard output. The string report of
  the inner proxy is written first, the hex report of the outer proxy last.
\<close>

theorem chained_write_outer_report_is_last:
  "Write (HexToWriter test_runtime
            (object_of_proxy
               (StringToWriter test_runtime MockIO_object Stdout_Write
                  (''RS [%v]'' @ [CHR 0x0A]) (''WS [%v]'' @ [CHR 0x0A])
                  (''E [%v: %v]'' @ [CHR 0x0A]) (''C'' @ [CHR 0x0A])))
            Stdout_Write (''RH [%v]'' @ [CHR 0x0A]) (''WH [%v]'' @ [CHR 0x0A]) [] [])
     (make_slice (bytes_of_string ''Testing'')) (test_start new_MockIO)
   = Inr ((7, None),
          (test_start (new_MockIO\<lparr>WriteContents := bytes_of_string ''Testing''\<rparr>))
            \<lparr>stdout := bytes_of_string
               (''WS [Testing]'' @ [CHR 0x0A] @ ''WH [54 65 73 74 69 6e 67]'' @ [CHR 0x0A])\<rparr>)
   \<and> bytes_of_string (''WS [Testing]'' @ [CHR 0x0A] @ ''WH [54 65 73 74 69 6e 67]'' @ [CHR 0x0A])
     \<noteq> bytes_of_string (''WH [54 65 73 74 69 6e 67]'' @ [CHR 0x0A] @ ''WS [Testing]'' @ [CHR 0x0A])"
  by code_simp

theorem chained_write_reports_inner_first_witness:
  "proxiedObject
     (HexToWriter test_runtime
        (object_of_proxy
           (StringToWriter test_runtime MockIO_object Stdout_Write
              ''RS [%v]'' ''WS [%v]'' ''E [%v: %v]'' ''C''))
        Stdout_Write ''RH [%v]'' ''WH [%v]'' [] [])
     = object_of_proxy
         (StringToWriter test_runtime MockIO_object Stdout_Write
            ''RS [%v]'' ''WS [%v]'' ''E [%v: %v]'' ''C'')
   \<and> method_Write (proxiedObject
         (StringToWriter test_runtime MockIO_object Stdout_Write
            ''RS [%v]'' ''WS [%v]'' ''E [%v: %v]'' ''C'')) = Some MockIO_Write
   \<and> MockIO_Write (make_slice (bytes_of_string ''Testing''))
        (test_start (new_MockIO\<lparr>FailAfterWriteByteCount := 4\<rparr>))
       = Inr ((4, Some ''ERROR!''),
              test_start (new_MockIO\<lparr>FailAfterWriteByteCount := 4,
                                     WriteContents := bytes_of_string ''Test''\<rparr>))
   \<and> (0 :: int) < 4 \<and> (4 :: int) \<le> int (cap (make_slice (bytes_of_string ''Testing'')))
   \<and> Write (HexToWriter test_runtime
        (object_of_proxy
           (StringToWriter test_runtime MockIO_object Stdout_Write
              ''RS [%v]'' ''WS [%v]'' ''E [%v: %v]'' ''C''))
        Stdout_Write ''RH [%v]'' ''WH [%v]'' [] [])
        (make_slice (bytes_of_string ''Testing''))
        (test_start (new_MockIO\<lparr>FailAfterWriteByteCount := 4\<rparr>))
       = Inr ((4, Some ''ERROR!''),
              (test_start (new_MockIO\<lparr>FailAfterWriteByteCount := 4,
                                      WriteContents := bytes_of_string ''Test''\<rparr>))
                \<lparr>stdout := bytes_of_string
                    ''WS [Test]E [Write(): ERROR!]WH [54 65 73 74]''\<rparr>)"
proof -
  let ?inner = "StringToWriter test_runtime MockIO_object Stdout_Write
                  ''RS [%v]'' ''WS [%v]'' ''E [%v: %v]'' ''C''"
  let ?outer = "HexToWriter test_runtime (object_of_proxy ?inner)
                  Stdout_Write ''RH [%v]'' ''WH [%v]'' [] []"
  let ?b = "make_slice (bytes_of_string ''Testing'')"
  let ?w = "test_start (new_MockIO\<lparr>FailAfterWriteByteCount := 4\<rparr>)"
  let ?w1 = "test_start (new_MockIO\<lparr>FailAfterWriteByteCount := 4,
                                     WriteContents := bytes_of_string ''Test''\<rparr>)"
  have h1: "proxiedObject ?outer = object_of_proxy ?inner"
    by (simp add: HexToWriter_def Generic_def)
  have h2: "method_Write (proxiedObject ?inner) = Some MockIO_Write"
    by (simp add: StringToWriter_def Generic_def MockIO_object_def)
  have h3: "MockIO_Write ?b ?w = Inr ((4, Some ''ERROR!''), ?w1)"
    by code_simp
  have h4: "(0 :: int) < 4" by simp
  have h5: "(4 :: int) \<le> int (cap ?b)"
    by (simp add: cap_def make_slice_def bytes_of_string_def)
  have r: "go_bind (reportWriteEvent ?inner \<lparr>arr = arr ?b, len = nat 4\<rparr>) (\<lambda>_.
           go_bind (case Some ''ERROR!'' of None \<Rightarrow> go_return ()
                    | Some e \<Rightarrow> reportErrorEvent ?inner ''Write()'' e) (\<lambda>_.
           go_bind (reportWriteEvent ?outer \<lparr>arr = arr ?b, len = nat 4\<rparr>) (\<lambda>_.
           go_bind (case Some ''ERROR!'' of None \<Rightarrow> go_return ()
                    | Some e \<Rightarrow> reportErrorEvent ?outer ''Write()'' e) (\<lambda>_.
           go_return (4 :: int, Some ''ERROR!''))))) ?w1
        = Inr ((4, Some ''ERROR!''),
               ?w1\<lparr>stdout := bytes_of_string ''WS [Test]E [Write(): ERROR!]WH [54 65 73 74]''\<rparr>)"
    by code_simp
  from chained_write_reports_inner_first [OF h1 h2 h3 h4 h5] r h1 h2 h3 h4 h5
  show ?thesis by simp
qed

section \<open>The constructors and their templates\<close>

lemma HexToLog_fields:
  "proxiedObject (HexToLog rt obj readFmt writeFmt errorFmt closeMsg) = obj"
  "reportWriteEvent (HexToLog rt obj readFmt writeFmt errorFmt closeMsg)
     = byteFunc readFmt (\<lambda>b. log_Printf rt writeFmt [StringArg (toHex (contents b))])"
  by (simp_all add: HexToLog_def Generic_def)

text \<open>
  Claim C7. In \<open>HexToLog\<close> the write callback is chosen by the read format: it does
  nothing exactly when \<open>readFmt\<close> is empty, whatever \<open>writeFmt\<close> is, and otherwise it
  logs the hex text formatted with \<open>writeFmt\<close>. So a write that the object accepts is
  reported by a proxy built by \<open>HexToLog\<close> if and only if \<open>readFmt\<close> is not empty.
\<close>

theorem HexToLog_write_report_follows_readFmt:
  "reportWriteEvent (HexToLog rt obj readFmt writeFmt errorFmt closeMsg)
     = (if readFmt = [] then (\<lambda>b. go_return ())
        else (\<lambda>b. log_Output rt (fmt_Sprintf rt writeFmt [StringArg (toHex (contents b))])))
   \<and> (\<forall>writer n err w1.
        method_Write obj = Some writer \<and> writer b w = Inr ((n, err), w1)
        \<and> 0 < n \<and> n \<le> int (cap b) \<longrightarrow>
        Write (HexToLog rt obj readFmt writeFmt errorFmt closeMsg) b w =
          go_bind (if readFmt = [] then go_return ()
                   else log_Output rt
                          (fmt_Sprintf rt writeFmt [StringArg (toHex (take (nat n) (arr b)))]))
            (\<lambda>_.
          go_bind (case err of None \<Rightarrow> go_return ()
                   | Some e \<Rightarrow> reportErrorEvent
                                (HexToLog rt obj readFmt writeFmt errorFmt closeMsg)
                                ''Write()'' e) (\<lambda>_.
          go_return (n, err))) w1)"
proof -
  let ?p = "HexToLog rt obj readFmt writeFmt errorFmt closeMsg"
  have cb: "reportWriteEvent ?p
     = (if readFmt = [] then (\<lambda>b. go_return ())
        else (\<lambda>b. log_Output rt (fmt_Sprintf rt writeFmt [StringArg (toHex (contents b))])))"
    by (simp add: HexToLog_fields byteFunc_def log_Printf_def)
  have wr: "Write ?p b w =
          go_bind (if readFmt = [] then go_return ()
                   else log_Output rt
                          (fmt_Sprintf rt writeFmt [StringArg (toHex (take (nat n) (arr b)))]))
            (\<lambda>_.
          go_bind (case err of None \<Rightarrow> go_return ()
                   | Some e \<Rightarrow> reportErrorEvent ?p ''Write()'' e) (\<lambda>_.
          go_return (n, err))) w1"
    if "method_Write obj = Some writer" "writer b w = Inr ((n, err), w1)"
       "0 < n" "n \<le> int (cap b)" for writer n err w1
  proof -
    from that(1) have "method_Write (proxiedObject ?p) = Some writer"
      by (simp add: HexToLog_fields)
    from Write_accepted [OF this that(2-4)] show ?thesis
      by (simp add: cb contents_def)
  qed
  from cb wr show ?thesis by blast
qed

theorem HexToLog_write_report_follows_readFmt_witness:
  "method_Write MockIO_object = Some MockIO_Write
   \<and> MockIO_Write (make_slice [1, 2, 3]) (test_start new_MockIO)
       = Inr ((3, None), test_start (new_MockIO\<lparr>WriteContents := [1, 2, 3]\<rparr>))
   \<and> (0 :: int) < 3 \<and> (3 :: int) \<le> int (cap (make_slice [1, 2, 3]))
   \<and> Write (HexToLog test_runtime MockIO_object [] ''W [%v]'' ''E [%v: %v]'' ''C'')
        (make_slice [1, 2, 3]) (test_start new_MockIO)
       = Inr ((3, None), test_start (new_MockIO\<lparr>WriteContents := [1, 2, 3]\<rparr>))
   \<and> Write (HexToLog test_runtime MockIO_object ''R [%v]'' ''W [%v]'' ''E [%v: %v]'' ''C'')
        (make_slice [1, 2, 3]) (test_start new_MockIO)
       = Inr ((3, None),
              (test_start (new_MockIO\<lparr>WriteContents := [1, 2, 3]\<rparr>))
                \<lparr>std_log := [''W [01 02 03]'']\<rparr>)"
proof -
  let ?b = "make_slice [1, 2, 3]"
  let ?w = "test_start new_MockIO"
  let ?w1 = "test_start (new_MockIO\<lparr>WriteContents := [1, 2, 3]\<rparr>)"
  let ?silent = "HexToLog test_runtime MockIO_object [] ''W [%v]'' ''E [%v: %v]'' ''C''"
  let ?active = "HexToLog test_runtime MockIO_object ''R [%v]'' ''W [%v]'' ''E [%v: %v]'' ''C''"
  have h1: "method_Write MockIO_object = Some MockIO_Write"
    by (simp add: MockIO_object_def)
  have h2: "MockIO_Write ?b ?w = Inr ((3, None), ?w1)"
    by code_simp
  have h3: "(0 :: int) < 3" by simp
  have h4: "(3 :: int) \<le> int (cap ?b)"
    by (simp add: cap_def make_slice_def)
  have r: "go_bind (log_Output test_runtime
                      (fmt_Sprintf test_runtime ''W [%v]''
                         [StringArg (toHex (take (nat 3) (arr ?b)))])) (\<lambda>_.
            go_bind (go_return ()) (\<lambda>_. go_return (3 :: int, None :: go_error option))) ?w1
           = Inr ((3, None), ?w1\<lparr>std_log := [''W [01 02 03]'']\<rparr>)"
    by code_simp
  have a: "Write ?silent ?b ?w = Inr ((3, None), ?w1)"
    using HexToLog_write_report_follows_readFmt
      [where rt = test_runtime and obj = MockIO_object and readFmt = "[]"
         and writeFmt = "''W [%v]''" and errorFmt = "''E [%v: %v]''" and closeMsg = "''C''"
         and b = ?b and w = ?w]
      h1 h2 h3 h4
    by (simp add: go_simps)
  have b: "Write ?active ?b ?w = Inr ((3, None), ?w1\<lparr>std_log := [''W [01 02 03]'']\<rparr>)"
    using HexToLog_write_report_follows_readFmt
      [where rt = test_runtime and obj = MockIO_object and readFmt = "''R [%v]''"
         and writeFmt = "''W [%v]''" and errorFmt = "''E [%v: %v]''" and closeMsg = "''C''"
         and b = ?b and w = ?w]
      h1 h2 h3 h4 r
    by simp
  from h1 h2 h3 h4 a b show ?thesis by simp
qed

lemma empty_template_disables_its_channel:
  "reportReadEvent (StringToLog rt obj [] writeFmt errorFmt closeMsg) = (\<lambda>b. go_return ())"
  "reportWriteEvent (StringToLog rt obj readFmt [] errorFmt closeMsg) = (\<lambda>b. go_return ())"
  "reportErrorEvent (StringToLog rt obj readFmt writeFmt [] closeMsg) = (\<lambda>l e. go_return ())"
  "reportCloseEvent (StringToLog rt obj readFmt writeFmt errorFmt []) = go_return ()"
  "reportReadEvent (HexToLog rt obj [] writeFmt errorFmt closeMsg) = (\<lambda>b. go_return ())"
  "reportErrorEvent (HexToLog rt obj readFmt writeFmt [] closeMsg) = (\<lambda>l e. go_return ())"
  "reportCloseEvent (HexToLog rt obj readFmt writeFmt errorFmt []) = go_return ()"
  "reportReadEvent (StringToWriter rt obj writer [] writeFmt errorFmt closeMsg)
     = (\<lambda>b. go_return ())"
  "reportErrorEvent (StringToWriter rt obj writer readFmt writeFmt [] closeMsg)
     = (\<lambda>l e. go_return ())"
  "reportCloseEvent (StringToWriter rt obj writer readFmt writeFmt errorFmt []) = go_return ()"
  "reportReadEvent (HexToWriter rt obj writer [] writeFmt errorFmt closeMsg)
     = (\<lambda>b. go_return ())"
  "reportErrorEvent (HexToWriter rt obj writer readFmt writeFmt [] closeMsg)
     = (\<lambda>l e. go_return ())"
  "reportCloseEvent (HexToWriter rt obj writer readFmt writeFmt errorFmt []) = go_return ()"
  "reportErrorEvent (DumpToWriters rt obj readWriter writeWriter notifyWriter [] closeMsg)
     = (\<lambda>l e. go_return ())"
  "reportCloseEvent (DumpToWriters rt obj readWriter writeWriter notifyWriter errorFmt [])
     = go_return ()"
  by (simp_all add: StringToLog_def HexToLog_def StringToWriter_def HexToWriter_def
      DumpToWriters_def Generic_def byteFunc_def errFunc_def closeFunc_def)

lemma DumpToFiles_null:
  "DumpToFiles rt obj ''null'' ''null'' ''null'' errorFmt closeMsg w
     = Inr (DumpToWriters rt obj ioutil_Discard ioutil_Discard ioutil_Discard errorFmt closeMsg, w)"
  by (simp add: DumpToFiles_def writerForFile_def go_simps)

text \<open>
  Claim C5, evaluated where the code departs from it. \<open>StringToWriter\<close> with an empty
  read format and the write format \<open>W [%v]\<close>: a write of \<open>test\<close> that the object accepts
  in full leaves the report buffer empty, while the same write through a proxy with the
  read format \<open>R [%v]\<close> reports \<open>W [test]\<close>. The write callback of \<open>StringToWriter\<close>,
  \<open>HexToWriter\<close> and \<open>HexToLog\<close> does nothing whenever the read format is empty, whatever
  the write format; \<open>StringToLog\<close> alone chooses it by the write format.
\<close>

theorem write_report_disabled_by_empty_readFmt:
  "Write (StringToWriter test_runtime MockIO_object bytes_Buffer_Write
            [] ''W [%v]'' ''E [%v: %v]'' ''C'')
     (make_slice (bytes_of_string ''test'')) (test_start new_MockIO)
     = Inr ((4, None), test_start (new_MockIO\<lparr>WriteContents := bytes_of_string ''test''\<rparr>))
   \<and> Write (StringToWriter test_runtime MockIO_object bytes_Buffer_Write
            ''R [%v]'' ''W [%v]'' ''E [%v: %v]'' ''C'')
     (make_slice (bytes_of_string ''test'')) (test_start new_MockIO)
     = Inr ((4, None),
            (test_start (new_MockIO\<lparr>WriteContents := bytes_of_string ''test''\<rparr>))
              \<lparr>buffer := bytes_of_string ''W [test]''\<rparr>)
   \<and> reportWriteEvent (StringToWriter rt obj writer [] writeFmt errorFmt closeMsg)
       = (\<lambda>b. go_return ())
   \<and> reportWriteEvent (HexToWriter rt obj writer [] writeFmt errorFmt closeMsg)
       = (\<lambda>b. go_return ())
   \<and> reportWriteEvent (HexToLog rt obj [] writeFmt errorFmt closeMsg)
       = (\<lambda>b. go_return ())
   \<and> reportWriteEvent (StringToLog rt obj [] writeFmt errorFmt closeMsg)
       = byteFunc writeFmt
           (\<lambda>b. log_Printf rt writeFmt [StringArg (string_of_bytes (contents b))])"
proof -
  have "Write (StringToWriter test_runtime MockIO_object bytes_Buffer_Write
            [] ''W [%v]'' ''E [%v: %v]'' ''C'')
     (make_slice (bytes_of_string ''test'')) (test_start new_MockIO)
     = Inr ((4, None), test_start (new_MockIO\<lparr>WriteContents := bytes_of_string ''test''\<rparr>))"
    by code_simp
  moreover have "Write (StringToWriter test_runtime MockIO_object bytes_Buffer_Write
            ''R [%v]'' ''W [%v]'' ''E [%v: %v]'' ''C'')
     (make_slice (bytes_of_string ''test'')) (test_start new_MockIO)
     = Inr ((4, None),
            (test_start (new_MockIO\<lparr>WriteContents := bytes_of_string ''test''\<rparr>))
              \<lparr>buffer := bytes_of_string ''W [test]''\<rparr>)"
    by code_simp
  moreover have "reportWriteEvent (StringToWriter rt obj writer [] writeFmt errorFmt closeMsg)
       = (\<lambda>b. go_return ())"
    by (simp add: StringToWriter_def Generic_def byteFunc_def)
  moreover have "reportWriteEvent (HexToWriter rt obj writer [] writeFmt errorFmt closeMsg)
       = (\<lambda>b. go_return ())"
    by (simp add: HexToWriter_def Generic_def byteFunc_def)
  moreover have "reportWriteEvent (HexToLog rt obj [] writeFmt errorFmt closeMsg)
       = (\<lambda>b. go_return ())"
    by (simp add: HexToLog_def Generic_def byteFunc_def)
  moreover have "reportWriteEvent (StringToLog rt obj [] writeFmt errorFmt closeMsg)
       = byteFunc writeFmt
           (\<lambda>b. log_Printf rt writeFmt [StringArg (string_of_bytes (contents b))])"
    by (simp add: StringToLog_def Generic_def)
  ultimately show ?thesis by blast
qed

end
